theory Spec2Isabelle
  imports Complex_Main "HOL-Library.Word"
begin

unbundle bit_operations_syntax

section \<open>Conventions of the embedding\<close>

text \<open>
  The C sources are \<^verbatim>\<open>src/hid_writer.c\<close>, \<^verbatim>\<open>src/hid_writer.h\<close>, \<^verbatim>\<open>src/main.c\<close> and
  \<^verbatim>\<open>src/test_math.c\<close>.

  \<^item> \<^verbatim>\<open>uint8_t\<close>, \<^verbatim>\<open>uint16_t\<close>, \<^verbatim>\<open>uint32_t\<close> and \<^verbatim>\<open>unsigned long long\<close> are
    \<open>8 word\<close>, \<open>16 word\<close>, \<open>32 word\<close> and \<open>64 word\<close>.
  \<^item> \<^verbatim>\<open>int\<close> values (sizes, counts, indices, report ids) and the 64-bit performance
    counter readings are \<open>int\<close>; the sizes, counts and indices stay far inside the
    machine range. The conversion of a floating-point value to \<^verbatim>\<open>int\<close> is partial: it
    has no result where C leaves it undefined.
  \<^item> \<^verbatim>\<open>float\<close> and \<^verbatim>\<open>double\<close> values are the real numbers they denote, and the
    arithmetic on them is exact: the rounding of each floating-point operation, NaN and
    the infinities are not modelled. Comparisons, assignments and the order of the
    branches are those of the source. The statements below are about what does not
    depend on the rounding: which branch is taken, values that are returned or copied
    unchanged, order, and bounds with a margin.
  \<^item> A pointer that may be \<^verbatim>\<open>NULL\<close> is an \<open>option\<close>.
  \<^item> The operating system and the device are inputs: every reading of the performance
    counter, the result of \<^verbatim>\<open>calloc\<close> and the return value of \<^verbatim>\<open>hid_write\<close> are
    arguments of the model, and the device I/O a call performs is returned as a list of
    events. Console output (\<^verbatim>\<open>printf\<close>, \<^verbatim>\<open>fprintf(stderr, ...)\<close>) is not traced.
\<close>

section \<open>hid\_writer.c\<close>

subsection \<open>Constants and types\<close>

definition MAGIC_0 :: "8 word" where "MAGIC_0 = 0xD1"
definition MAGIC_1 :: "8 word" where "MAGIC_1 = 0xDA"

definition CMD_ACTUATION :: "8 word" where "CMD_ACTUATION = 21"
definition CMD_RAPID_TRIGGER :: "8 word" where "CMD_RAPID_TRIGGER = 25"

definition REPORT_SIZES :: "int list" where
  "REPORT_SIZES = [0, 32, 62, 254, 510, 1022, 2046]"

definition NUM_REPORT_SIZES :: int where "NUM_REPORT_SIZES = 7"

text \<open>\<^verbatim>\<open>struct WootingHID\<close>; the \<^verbatim>\<open>hid_device *\<close> is an opaque number.\<close>

record WootingHID =
  handle :: nat
  active_profile :: int

text \<open>\<^verbatim>\<open>KeySetting\<close> of hid\_writer.h.\<close>

record KeySetting =
  row :: "8 word"
  col :: "8 word"
  mm :: real

subsection \<open>Helpers\<close>

text \<open>The C conversion \<^verbatim>\<open>(int)x\<close> of a floating-point value truncates towards zero.
  It is undefined in C when the truncated value is outside the range of the 32-bit
  \<^verbatim>\<open>int\<close>; that is the result \<open>None\<close>.\<close>

definition float_to_int :: "real \<Rightarrow> int option" where
  "float_to_int x =
     (let n = (if 0 \<le> x then \<lfloor>x\<rfloor> else \<lceil>x\<rceil>)
      in if - 2147483648 \<le> n \<and> n \<le> 2147483647 then Some n else None)"

text \<open>\<^verbatim>\<open>mm_to_firmware\<close>; \<open>None\<close> where its conversion to \<^verbatim>\<open>int\<close> is undefined.\<close>

definition mm_to_firmware :: "real \<Rightarrow> 8 word option" where
  "mm_to_firmware x =
     (case float_to_int (x / 4 * 255 + 0.5) of
        None \<Rightarrow> None
      | Some val0 \<Rightarrow>
          let val = (if val0 < 7 then 7 else val0);
              val = (if val > 255 then 255 else val)
          in Some (word_of_int val))"


definition linear_key_index :: "8 word \<Rightarrow> 8 word \<Rightarrow> 8 word" where
  "linear_key_index r c = push_bit 5 (r AND 7) OR (c AND 31)"

definition encode_key_entry :: "8 word \<Rightarrow> 8 word \<Rightarrow> 8 word \<Rightarrow> 16 word" where
  "encode_key_entry firmware_val r c =
     (let idx = linear_key_index r c
      in push_bit 8 (ucast firmware_val) OR ucast idx)"

text \<open>\<^verbatim>\<open>encode_varint\<close> writes the bytes to \<^verbatim>\<open>buf\<close> and returns their number; the model
  returns the bytes written, in order.\<close>

function encode_varint :: "32 word \<Rightarrow> 8 word list" where
  "encode_varint v =
     (if v > 0x7F then ucast ((v AND 0x7F) OR 0x80) # encode_varint (drop_bit 7 v)
      else [ucast (v AND 0x7F)])"
  by pat_completeness auto
termination
proof (relation "measure unat")
  show "wf (measure (unat :: 32 word \<Rightarrow> nat))" by simp
next
  fix v :: "32 word"
  assume "0x7F < v"
  then have "127 < unat v" by (simp add: word_less_nat_alt)
  then have "unat v div 128 < unat v" by simp
  then show "(drop_bit 7 v, v) \<in> measure unat"
    by (simp add: unat_drop_bit_eq drop_bit_eq_div unat_div)
qed

declare encode_varint.simps [simp del]

text \<open>The loop of \<^verbatim>\<open>pick_report_id\<close>, from index \<open>i\<close> on.\<close>

function pick_report_id_from :: "int \<Rightarrow> int \<Rightarrow> int" where
  "pick_report_id_from i data_size =
     (if i < NUM_REPORT_SIZES then
        (if data_size \<le> REPORT_SIZES ! nat i then i
         else pick_report_id_from (i + 1) data_size)
      else NUM_REPORT_SIZES - 1)"
  by pat_completeness auto
termination
  by (relation "measure (\<lambda>(i, data_size). nat (NUM_REPORT_SIZES - i))") auto

declare pick_report_id_from.simps [simp del]

definition pick_report_id :: "int \<Rightarrow> int" where
  "pick_report_id data_size = pick_report_id_from 1 data_size"

subsection \<open>Device I/O\<close>

datatype hid_io =
    HidWrite nat "8 word list"
  | Sleep nat
  | HidReadTimeout nat nat

text \<open>What the environment answers during one call of \<^verbatim>\<open>send_data\<close>.\<close>

record hid_env =
  calloc_ok :: bool
  hid_write_ret :: int

text \<open>\<^verbatim>\<open>memcpy(buf + off, src, len)\<close> with \<open>len = length src\<close>, inside the buffer.\<close>

definition memcpy_at :: "8 word list \<Rightarrow> nat \<Rightarrow> 8 word list \<Rightarrow> 8 word list" where
  "memcpy_at buf off src = take off buf @ src @ drop (off + length src) buf"

text \<open>The buffer \<^verbatim>\<open>send_data\<close> hands to \<^verbatim>\<open>hid_write\<close>; \<open>proto_len\<close> is the length of
  \<open>proto\<close>.\<close>

definition send_data_buf :: "8 word \<Rightarrow> 8 word \<Rightarrow> 8 word list \<Rightarrow> 8 word list" where
  "send_data_buf cmd options proto =
     (let proto_len = int (length proto);
          data_size = 6 + proto_len;
          rid = pick_report_id data_size;
          pad_size = REPORT_SIZES ! nat rid;
          buf_size = 1 + pad_size;
          buf = replicate (nat buf_size) (0 :: 8 word);
          buf = buf[0 := word_of_int rid];
          buf = buf[1 := MAGIC_0];
          buf = buf[2 := MAGIC_1];
          buf = buf[3 := cmd];
          buf = buf[4 := options];
          buf = buf[5 := word_of_int (proto_len AND 0xFF)];
          buf = buf[6 := word_of_int (drop_bit 8 proto_len AND 0xFF)]
      in memcpy_at buf 7 proto)"

definition send_data ::
  "hid_env \<Rightarrow> WootingHID \<Rightarrow> 8 word \<Rightarrow> 8 word \<Rightarrow> 8 word list \<Rightarrow> bool \<times> hid_io list" where
  "send_data env dev cmd options proto =
     (if \<not> calloc_ok env then (False, [])
      else
        let buf = send_data_buf cmd options proto;
            ret = hid_write_ret env
        in if ret < 0 then (False, [HidWrite (handle dev) buf])
           else
             let is_save = (options AND 1 \<noteq> 0);
                 ms = (if is_save then 50 else 5)
             in (True, [HidWrite (handle dev) buf, Sleep ms,
                        HidReadTimeout (handle dev) ms]))"

subsection \<open>The partial key profile\<close>

text \<open>The first loop of \<^verbatim>\<open>build_partial_proto\<close>, from index \<open>i\<close> on, with the bytes of
  \<^verbatim>\<open>inner\<close> written so far. \<open>None\<close> is the return value \<open>-1\<close>. The array \<open>keys\<close> is a
  list; reading \<^verbatim>\<open>keys[i]\<close> past its end is undefined in C and is the result
  \<open>ReadPastArray\<close> here, and a depth for which the conversion in \<^verbatim>\<open>mm_to_firmware\<close> is
  undefined gives \<open>CastOutOfRange\<close>.\<close>

datatype 'a c_result = Defined 'a | ReadPastArray | CastOutOfRange

function build_inner ::
  "KeySetting list \<Rightarrow> int \<Rightarrow> int \<Rightarrow> 8 word list \<Rightarrow> 8 word list option c_result" where
  "build_inner keys count i inner =
     (if i < count then
        (if i < 0 \<or> int (length keys) \<le> i then ReadPastArray
         else
           case mm_to_firmware (mm (keys ! nat i)) of
             None \<Rightarrow> CastOutOfRange
           | Some fw_val \<Rightarrow>
               let entry = encode_key_entry fw_val (row (keys ! nat i)) (col (keys ! nat i))
               in if int (length inner) + 4 > 512 then Defined None
                  else build_inner keys count (i + 1)
                         (inner @ [0x08] @ encode_varint (ucast entry)))
      else Defined (Some inner))"
  by pat_completeness auto
termination
  by (relation "measure (\<lambda>(keys, count, i, inner). nat (count - i))") auto

declare build_inner.simps [simp del]

definition build_partial_proto ::
  "int \<Rightarrow> KeySetting list \<Rightarrow> int \<Rightarrow> 8 word list option c_result" where
  "build_partial_proto buf_size keys count =
     (case build_inner keys count 0 [] of
        ReadPastArray \<Rightarrow> ReadPastArray
      | CastOutOfRange \<Rightarrow> CastOutOfRange
      | Defined None \<Rightarrow> Defined None
      | Defined (Some inner) \<Rightarrow>
          let inner_len = int (length inner)
          in if 0 + 1 + 5 + inner_len > buf_size then Defined None
             else Defined (Some ([0x12] @ encode_varint (word_of_int inner_len) @ inner)))"

subsection \<open>Public API\<close>

text \<open>The two write functions return the \<^verbatim>\<open>bool\<close> and the device I/O performed. They
  never assign to \<^verbatim>\<open>*dev\<close>, so the device record is an input only.\<close>

definition write_options :: "bool \<Rightarrow> int \<Rightarrow> 8 word" where
  "write_options save profile_idx =
     word_of_int ((if save then 1 else 0) OR push_bit 1 profile_idx)"

definition wooting_hid_write_actuation ::
  "hid_env \<Rightarrow> WootingHID option \<Rightarrow> int \<Rightarrow> KeySetting list option \<Rightarrow> int \<Rightarrow> bool
     \<Rightarrow> (bool \<times> hid_io list) c_result" where
  "wooting_hid_write_actuation env dev profile_idx keys count save =
     (if dev = None \<or> keys = None \<or> count \<le> 0 then Defined (False, [])
      else
        case build_partial_proto 512 (the keys) count of
          ReadPastArray \<Rightarrow> ReadPastArray
        | CastOutOfRange \<Rightarrow> CastOutOfRange
        | Defined None \<Rightarrow> Defined (False, [])
        | Defined (Some proto) \<Rightarrow>
            let options = write_options save profile_idx
            in Defined (send_data env (the dev) CMD_ACTUATION options proto))"

definition wooting_hid_write_rt ::
  "hid_env \<Rightarrow> WootingHID option \<Rightarrow> int \<Rightarrow> KeySetting list option \<Rightarrow> int \<Rightarrow> bool
     \<Rightarrow> (bool \<times> hid_io list) c_result" where
  "wooting_hid_write_rt env dev profile_idx keys count save =
     (if dev = None \<or> keys = None \<or> count \<le> 0 then Defined (False, [])
      else
        case build_partial_proto 512 (the keys) count of
          ReadPastArray \<Rightarrow> ReadPastArray
        | CastOutOfRange \<Rightarrow> CastOutOfRange
        | Defined None \<Rightarrow> Defined (False, [])
        | Defined (Some proto) \<Rightarrow>
            let options = write_options save profile_idx
            in Defined (send_data env (the dev) CMD_RAPID_TRIGGER options proto))"


text \<open>One call of the public API, as issued by a caller, and the function it runs.\<close>

datatype hid_call =
    Write_actuation "WootingHID option" int "KeySetting list option" int bool
  | Write_rt "WootingHID option" int "KeySetting list option" int bool

fun run_hid_call :: "hid_env \<Rightarrow> hid_call \<Rightarrow> (bool \<times> hid_io list) c_result" where
  "run_hid_call env (Write_actuation dev profile_idx keys count save) =
     wooting_hid_write_actuation env dev profile_idx keys count save"
| "run_hid_call env (Write_rt dev profile_idx keys count save) =
     wooting_hid_write_rt env dev profile_idx keys count save"

section \<open>main.c\<close>

subsection \<open>Constants\<close>

definition K_W :: nat where "K_W = 0"
definition K_A :: nat where "K_A = 1"
definition K_S :: nat where "K_S = 2"
definition K_D :: nat where "K_D = 3"

definition KEY_W_ROW :: "8 word" where "KEY_W_ROW = 2"
definition KEY_W_COL :: "8 word" where "KEY_W_COL = 2"
definition KEY_A_ROW :: "8 word" where "KEY_A_ROW = 3"
definition KEY_A_COL :: "8 word" where "KEY_A_COL = 1"
definition KEY_S_ROW :: "8 word" where "KEY_S_ROW = 3"
definition KEY_S_COL :: "8 word" where "KEY_S_COL = 2"
definition KEY_D_ROW :: "8 word" where "KEY_D_ROW = 3"
definition KEY_D_COL :: "8 word" where "KEY_D_COL = 3"

definition DEAD_ZONE :: real where "DEAD_ZONE = 0.01"
definition PROFILE_IDX :: int where "PROFILE_IDX = 0"

definition JIGGLE_WINDOW_MS :: real where "JIGGLE_WINDOW_MS = 300"
definition JIGGLE_MIN_COUNT :: int where "JIGGLE_MIN_COUNT = 2"
definition JIGGLE_PREARM_MS :: real where "JIGGLE_PREARM_MS = 300"

definition PHASE_ULTRA_MS :: real where "PHASE_ULTRA_MS = 80"
definition PHASE_DECAY_MS :: real where "PHASE_DECAY_MS = 200"

definition VEL_AGGRO_ZONE :: real where "VEL_AGGRO_ZONE = 0.50"
definition VEL_MIN_AP_FACTOR :: real where "VEL_MIN_AP_FACTOR = 0.5"

definition SV_FRICTION :: real where "SV_FRICTION = 5.2"
definition SV_ACCELERATE :: real where "SV_ACCELERATE = 5.5"
definition SV_STOPSPEED :: real where "SV_STOPSPEED = 80"

subsection \<open>Weapon categories and configuration\<close>

datatype WeaponCategory =
  WCAT_RIFLE | WCAT_AWP | WCAT_PISTOL | WCAT_SMG | WCAT_KNIFE | WCAT_OTHER | WCAT_COUNT

text \<open>The integer value of each enumerator.\<close>

fun wcat_index :: "WeaponCategory \<Rightarrow> int" where
  "wcat_index WCAT_RIFLE = 0"
| "wcat_index WCAT_AWP = 1"
| "wcat_index WCAT_PISTOL = 2"
| "wcat_index WCAT_SMG = 3"
| "wcat_index WCAT_KNIFE = 4"
| "wcat_index WCAT_OTHER = 5"
| "wcat_index WCAT_COUNT = 6"

record WeaponProfile =
  ap :: real
  rt :: real

record Config =
  ap_normal :: real
  ap_aggro :: real
  rt_normal :: real
  rt_aggro :: real
  write_interval_ms :: real
  predict_threshold :: real
  predict_min_peak :: real
  crouch_rt_factor :: real
  ws_adaptive :: int
  stats_enabled :: int
  weapon :: "WeaponProfile list"
  gsi_enabled :: int
  gsi_port :: int
  vel_enabled :: int
  jiggle_enabled :: int
  vel_scale_enabled :: int
  phase_decay :: int
  poll_rate_hz :: real

text \<open>The initialiser of \<^verbatim>\<open>g_cfg\<close>.\<close>

definition g_cfg :: Config where
  "g_cfg =
     \<lparr> ap_normal = 1.2, ap_aggro = 0.4, rt_normal = 1.0, rt_aggro = 0.1,
       write_interval_ms = 50, predict_threshold = 0.70, predict_min_peak = 0.30,
       crouch_rt_factor = 0.5, ws_adaptive = 0, stats_enabled = 1,
       weapon = [\<lparr>ap = 0.4, rt = 0.1\<rparr>, \<lparr>ap = 0.8, rt = 0.4\<rparr>, \<lparr>ap = 0.3, rt = 0.1\<rparr>,
                 \<lparr>ap = 0.5, rt = 0.2\<rparr>, \<lparr>ap = 1.5, rt = 1.0\<rparr>, \<lparr>ap = 1.0, rt = 0.5\<rparr>],
       gsi_enabled = 1, gsi_port = 58732, vel_enabled = 1,
       jiggle_enabled = 1, vel_scale_enabled = 1, phase_decay = 1,
       poll_rate_hz = 8000 \<rparr>"

text \<open>\<^verbatim>\<open>GSIState\<close>, the fields \<^verbatim>\<open>update_targets\<close> reads. The field names carry the
  prefix \<open>gsi_\<close> because \<^verbatim>\<open>AimContext\<close> has fields of the same names.\<close>

record GSIState =
  gsi_weapon_name :: string
  gsi_weapon_cat :: WeaponCategory
  gsi_weapon_speed :: real
  gsi_round_phase :: string
  connected :: bool

subsection \<open>Velocity estimation\<close>

text \<open>\<^verbatim>\<open>VelEstimator\<close>. The field \<^verbatim>\<open>vel\<close> is \<open>ve_vel\<close> here: the record package
  generates an update function \<open>f_update\<close> for a field \<open>f\<close>, and \<open>vel_update\<close> is the
  name of the C function below.\<close>

record VelEstimator =
  ve_vel :: real
  max_speed :: real
  last_update :: int

text \<open>The body of \<^verbatim>\<open>vel_update\<close> after the timer consists of three blocks, marked by
  its comments \<^verbatim>\<open>Apply friction\<close>, \<^verbatim>\<open>Apply acceleration\<close> and \<^verbatim>\<open>Clamp\<close>. Each reads
  and assigns \<^verbatim>\<open>ve->vel\<close> only, so each is a function from the old to the new value of
  \<^verbatim>\<open>ve->vel\<close>. \<^verbatim>\<open>vel_step\<close> of test\_math.c is made of the same three blocks on its
  local \<^verbatim>\<open>vel\<close>.\<close>

definition apply_friction :: "real \<Rightarrow> real \<Rightarrow> real" where
  "apply_friction v dt =
     (let speed = \<bar>v\<bar>
      in if speed > 0.001 then
           let control = (if speed < SV_STOPSPEED then SV_STOPSPEED else speed);
               drop = control * SV_FRICTION * dt;
               new_speed = speed - drop;
               new_speed = (if new_speed < 0 then 0 else new_speed)
           in v * (new_speed / speed)
         else v)"

definition apply_acceleration :: "real \<Rightarrow> bool \<Rightarrow> bool \<Rightarrow> real \<Rightarrow> real \<Rightarrow> real" where
  "apply_acceleration v pos_key neg_key max_spd dt =
     (let wish = (if pos_key \<and> \<not> neg_key then 1
                  else if neg_key \<and> \<not> pos_key then - 1 else (0 :: real))
      in if wish \<noteq> 0 then
           let current_in_wish = v * wish;
               add_speed = max_spd - current_in_wish
           in if add_speed > 0 then
                let accel_speed = SV_ACCELERATE * dt * max_spd;
                    accel_speed = (if accel_speed > add_speed then add_speed else accel_speed)
                in v + accel_speed * wish
              else v
         else v)"

definition clamp_vel :: "real \<Rightarrow> real \<Rightarrow> real" where
  "clamp_vel v0 max_spd =
     (let v = (if \<bar>v0\<bar> > max_spd then (if v0 > 0 then max_spd else - max_spd) else v0);
          v = (if \<bar>v\<bar> < 0.5 then 0 else v)
      in v)"

text \<open>\<^verbatim>\<open>vel_update\<close> of main.c. \<open>now\<close> is the counter reading the caller passes.\<close>

definition vel_update ::
  "VelEstimator \<Rightarrow> real \<Rightarrow> real \<Rightarrow> real \<Rightarrow> int \<Rightarrow> real \<Rightarrow> VelEstimator" where
  "vel_update ve0 pos_analog neg_analog max_spd now freq =
     (let ve = ve0\<lparr>max_speed := max_spd\<rparr>;
          elapsed = real_of_int (now - last_update ve) / freq
      in if elapsed \<le> 0 \<or> elapsed > 0.1 then ve\<lparr>last_update := now\<rparr>
         else
           let ve = ve\<lparr>last_update := now\<rparr>;
               dt = elapsed;
               pos_key = pos_analog > DEAD_ZONE;
               neg_key = neg_analog > DEAD_ZONE;
               ve = ve\<lparr>ve_vel := apply_friction (ve_vel ve) dt\<rparr>;
               ve = ve\<lparr>ve_vel := apply_acceleration (ve_vel ve) pos_key neg_key max_spd dt\<rparr>;
               ve = ve\<lparr>ve_vel := clamp_vel (ve_vel ve) max_spd\<rparr>
           in ve)"

text \<open>\<^verbatim>\<open>vel_step\<close> of test\_math.c (``simplified vel\_update for testing''): the three
  blocks, without the timer.\<close>

definition vel_step :: "real \<Rightarrow> bool \<Rightarrow> bool \<Rightarrow> real \<Rightarrow> real \<Rightarrow> real" where
  "vel_step v pos_key neg_key max_spd dt =
     (let v = apply_friction v dt;
          v = apply_acceleration v pos_key neg_key max_spd dt;
          v = clamp_vel v max_spd
      in v)"

text \<open>A run of the estimator: one \<^verbatim>\<open>vel_update\<close> per input
  \<open>(pos_analog, neg_analog, max_spd, now)\<close>; the result lists the estimator after each
  update.\<close>

fun vel_run ::
  "real \<Rightarrow> VelEstimator \<Rightarrow> (real \<times> real \<times> real \<times> int) list \<Rightarrow> VelEstimator list" where
  "vel_run freq ve [] = []"
| "vel_run freq ve ((pos_analog, neg_analog, max_spd, now) # ins) =
     (let ve' = vel_update ve pos_analog neg_analog max_spd now freq
      in ve' # vel_run freq ve' ins)"

text \<open>The test of the early return of \<^verbatim>\<open>vel_update\<close>
  (\<^verbatim>\<open>elapsed <= 0 || elapsed > 0.1\<close>), for an estimator and a counter reading.\<close>

definition vel_update_skips :: "VelEstimator \<Rightarrow> int \<Rightarrow> real \<Rightarrow> bool" where
  "vel_update_skips ve now freq =
     (let elapsed = real_of_int (now - last_update ve) / freq
      in elapsed \<le> 0 \<or> elapsed > 0.1)"

text \<open>A run in which every ceiling is non-negative and no update that returns early
  passes a ceiling below the one the estimator holds.\<close>

fun ceiling_kept ::
  "real \<Rightarrow> VelEstimator \<Rightarrow> (real \<times> real \<times> real \<times> int) list \<Rightarrow> bool" where
  "ceiling_kept freq ve [] = True"
| "ceiling_kept freq ve ((pos_analog, neg_analog, max_spd, now) # ins) =
     (0 \<le> max_spd
      \<and> (if vel_update_skips ve now freq then max_speed ve \<le> max_spd else True)
      \<and> ceiling_kept freq (vel_update ve pos_analog neg_analog max_spd now freq) ins)"


subsection \<open>Axis state machine\<close>

datatype AxisState = S_IDLE | S_STRAFE_POS | S_STRAFE_NEG | S_COUNTER_POS | S_COUNTER_NEG

record Axis =
  state :: AxisState
  prev :: AxisState
  pos_peak :: real
  neg_peak :: real
  predictive :: bool
  counter_start :: int
  counter_ms :: real
  counter_count :: "64 word"
  counter_total_ms :: real
  jiggle_times :: "int list"
  jiggle_idx :: int
  is_jiggle :: bool
  jiggle_last :: int

text \<open>An \<^verbatim>\<open>Axis\<close> of the zero-initialised \<^verbatim>\<open>AimContext ctx = {0}\<close>.\<close>

definition axis_zero :: Axis where
  "axis_zero =
     \<lparr> state = S_IDLE, prev = S_IDLE, pos_peak = 0, neg_peak = 0, predictive = False,
       counter_start = 0, counter_ms = 0, counter_count = 0, counter_total_ms = 0,
       jiggle_times = [0, 0, 0, 0], jiggle_idx = 0, is_jiggle = False, jiggle_last = 0 \<rparr>"

text \<open>The readings \<^verbatim>\<open>QueryPerformanceCounter\<close> returns inside one call of
  \<^verbatim>\<open>axis_update\<close>: in the \<^verbatim>\<open>switch\<close> (at most one reading on any path), when a
  counter-strafe entry is recorded, and when jiggle mode is checked for expiry.\<close>

record axis_clock =
  qpc_switch :: int
  qpc_jiggle :: int
  qpc_expire :: int

text \<open>The \<^verbatim>\<open>switch (ax->state)\<close> of \<^verbatim>\<open>axis_update\<close>.\<close>

definition axis_switch ::
  "Config \<Rightarrow> axis_clock \<Rightarrow> Axis \<Rightarrow> real \<Rightarrow> real \<Rightarrow> bool \<Rightarrow> bool \<Rightarrow> bool \<Rightarrow> bool \<Rightarrow> real
     \<Rightarrow> Axis" where
  "axis_switch cfg clk ax pos neg pp np pr nr freq =
     (case state ax of
        S_IDLE \<Rightarrow>
          let ax = (if pp \<and> \<not> np
                    then ax\<lparr>state := S_STRAFE_POS, pos_peak := pos, neg_peak := 0\<rparr> else ax);
              ax = (if np \<and> \<not> pp
                    then ax\<lparr>state := S_STRAFE_NEG, neg_peak := neg, pos_peak := 0\<rparr> else ax)
          in ax
      | S_STRAFE_POS \<Rightarrow>
          if \<not> pp \<and> \<not> np then ax\<lparr>state := S_IDLE\<rparr>
          else
            let ax = (if pos > pos_peak ax then ax\<lparr>pos_peak := pos\<rparr> else ax);
                ax = (if pos_peak ax > predict_min_peak cfg \<and>
                         pos < pos_peak ax * predict_threshold cfg
                      then ax\<lparr>predictive := True\<rparr> else ax);
                ax = (if nr then ax\<lparr>state := S_COUNTER_NEG, counter_start := qpc_switch clk\<rparr>
                      else ax)
            in ax
      | S_STRAFE_NEG \<Rightarrow>
          if \<not> pp \<and> \<not> np then ax\<lparr>state := S_IDLE\<rparr>
          else
            let ax = (if neg > neg_peak ax then ax\<lparr>neg_peak := neg\<rparr> else ax);
                ax = (if neg_peak ax > predict_min_peak cfg \<and>
                         neg < neg_peak ax * predict_threshold cfg
                      then ax\<lparr>predictive := True\<rparr> else ax);
                ax = (if pr then ax\<lparr>state := S_COUNTER_POS, counter_start := qpc_switch clk\<rparr>
                      else ax)
            in ax
      | _ \<Rightarrow>
          let now = qpc_switch clk;
              ax = ax\<lparr>counter_ms := real_of_int (now - counter_start ax) * 1000 / freq\<rparr>
          in if \<not> pp \<and> \<not> np then ax\<lparr>state := S_IDLE\<rparr>
             else if pp \<and> \<not> np then ax\<lparr>state := S_STRAFE_POS, pos_peak := pos\<rparr>
             else if np \<and> \<not> pp then ax\<lparr>state := S_STRAFE_NEG, neg_peak := neg\<rparr>
             else ax)"

text \<open>The loop counting the entries of \<^verbatim>\<open>jiggle_times\<close> younger than the window.\<close>

fun jiggle_recent :: "int list \<Rightarrow> int \<Rightarrow> real \<Rightarrow> int \<Rightarrow> int" where
  "jiggle_recent [] now freq recent = recent"
| "jiggle_recent (t # ts) now freq recent =
     (if t = 0 then jiggle_recent ts now freq recent
      else
        let age = real_of_int (now - t) * 1000 / freq
        in jiggle_recent ts now freq (if age < JIGGLE_WINDOW_MS then recent + 1 else recent))"

text \<open>The block recording a counter-strafe entry.\<close>

definition axis_jiggle_record :: "axis_clock \<Rightarrow> Axis \<Rightarrow> real \<Rightarrow> Axis" where
  "axis_jiggle_record clk ax freq =
     (if state ax \<noteq> prev ax \<and> (state ax = S_COUNTER_POS \<or> state ax = S_COUNTER_NEG) then
        let now = qpc_jiggle clk;
            ax = ax\<lparr>jiggle_times := (jiggle_times ax)[nat (jiggle_idx ax AND 3) := now]\<rparr>;
            ax = ax\<lparr>jiggle_idx := (jiggle_idx ax + 1) AND 0x7FFFFFFF\<rparr>;
            recent = jiggle_recent (jiggle_times ax) now freq 0
        in if recent \<ge> JIGGLE_MIN_COUNT then ax\<lparr>is_jiggle := True, jiggle_last := now\<rparr>
           else ax
      else ax)"

text \<open>The block expiring jiggle mode.\<close>

definition axis_jiggle_expire :: "axis_clock \<Rightarrow> Axis \<Rightarrow> real \<Rightarrow> Axis" where
  "axis_jiggle_expire clk ax freq =
     (if is_jiggle ax then
        let now = qpc_expire clk;
            since_last = real_of_int (now - jiggle_last ax) * 1000 / freq
        in if since_last > JIGGLE_PREARM_MS then ax\<lparr>is_jiggle := False\<rparr> else ax
      else ax)"

definition axis_update ::
  "Config \<Rightarrow> axis_clock \<Rightarrow> Axis \<Rightarrow> real \<Rightarrow> real \<Rightarrow> real \<Rightarrow> real \<Rightarrow> real \<Rightarrow> Axis" where
  "axis_update cfg clk ax0 pos neg prev_pos prev_neg freq =
     (let ax = ax0\<lparr>prev := state ax0, predictive := False\<rparr>;
          pp = pos > DEAD_ZONE;
          np = neg > DEAD_ZONE;
          pr = pos > DEAD_ZONE \<and> prev_pos \<le> DEAD_ZONE;
          nr = neg > DEAD_ZONE \<and> prev_neg \<le> DEAD_ZONE;
          ax = axis_switch cfg clk ax pos neg pp np pr nr freq;
          ax = (if state ax \<noteq> prev ax \<and> (prev ax = S_COUNTER_POS \<or> prev ax = S_COUNTER_NEG)
                then ax\<lparr>counter_count := counter_count ax + 1,
                        counter_total_ms := counter_total_ms ax + counter_ms ax\<rparr>
                else ax);
          ax = axis_jiggle_record clk ax freq;
          ax = axis_jiggle_expire clk ax freq
      in ax)"

text \<open>The main loop calls \<^verbatim>\<open>axis_update\<close> once per iteration with the current samples
  and the samples of the iteration before (\<^verbatim>\<open>ctx.prev_d = ctx.d\<close> and so on, zero at
  the start). \<open>axis_run\<close> does so for a list of samples \<open>(clk, pos, neg)\<close>.\<close>

fun axis_run ::
  "Config \<Rightarrow> real \<Rightarrow> Axis \<Rightarrow> real \<Rightarrow> real \<Rightarrow> (axis_clock \<times> real \<times> real) list \<Rightarrow> Axis" where
  "axis_run cfg freq ax prev_pos prev_neg [] = ax"
| "axis_run cfg freq ax prev_pos prev_neg ((clk, pos, neg) # ins) =
     axis_run cfg freq (axis_update cfg clk ax pos neg prev_pos prev_neg freq) pos neg ins"


subsection \<open>Main context and adaptive policy\<close>

text \<open>\<^verbatim>\<open>AimContext\<close>, the fields the policy and the writer use. The axes \<^verbatim>\<open>h\<close> and
  \<^verbatim>\<open>v\<close> are the fields \<open>axis_h\<close> and \<open>axis_v\<close>; the arrays of four floats are lists
  indexed by \<open>K_W\<close>, \<open>K_A\<close>, \<open>K_S\<close>, \<open>K_D\<close>.\<close>

record AimContext =
  axis_h :: Axis
  axis_v :: Axis
  crouching :: bool
  target_ap :: "real list"
  target_rt :: "real list"
  current_ap :: "real list"
  current_rt :: "real list"
  needs_write :: bool
  last_write_time :: int
  write_count :: "64 word"
  weapon_cat :: WeaponCategory
  weapon_name :: string
  round_phase :: string
  weapon_speed :: real
  gsi_active :: bool
  vel_h :: VelEstimator
  vel_v :: VelEstimator

text \<open>The context at the start of the main loop: \<^verbatim>\<open>ctx = {0}\<close>, the four pairs set to
  the normal depths, \<^verbatim>\<open>last_write_time\<close> set to the counter reading \<open>t_write\<close> and the
  timers of both estimators to the next reading \<open>t_vel\<close>.\<close>

definition ctx_init :: "Config \<Rightarrow> int \<Rightarrow> int \<Rightarrow> AimContext" where
  "ctx_init cfg t_write t_vel =
     \<lparr> axis_h = axis_zero, axis_v = axis_zero, crouching = False,
       target_ap = replicate 4 (ap_normal cfg), target_rt = replicate 4 (rt_normal cfg),
       current_ap = replicate 4 (ap_normal cfg), current_rt = replicate 4 (rt_normal cfg),
       needs_write = False, last_write_time = t_write, write_count = 0,
       weapon_cat = WCAT_RIFLE, weapon_name = [], round_phase = [], weapon_speed = 0,
       gsi_active = False,
       vel_h = \<lparr>ve_vel = 0, max_speed = 225, last_update = t_vel\<rparr>,
       vel_v = \<lparr>ve_vel = 0, max_speed = 225, last_update = t_vel\<rparr> \<rparr>"

text \<open>\<^verbatim>\<open>get_base_aggro\<close> returns the pair through its two pointers.\<close>

definition get_base_aggro :: "Config \<Rightarrow> AimContext \<Rightarrow> real \<times> real" where
  "get_base_aggro cfg ctx =
     (if gsi_active ctx \<and> wcat_index (weapon_cat ctx) < wcat_index WCAT_COUNT
      then (ap (weapon cfg ! nat (wcat_index (weapon_cat ctx))),
            rt (weapon cfg ! nat (wcat_index (weapon_cat ctx))))
      else (ap_aggro cfg, rt_aggro cfg))"

definition vel_scale_ap :: "real \<Rightarrow> real \<Rightarrow> real" where
  "vel_scale_ap base_ap vel_ratio =
     (if vel_ratio < VEL_AGGRO_ZONE then base_ap
      else
        let t = (vel_ratio - VEL_AGGRO_ZONE) / (1 - VEL_AGGRO_ZONE);
            factor = 1 - t * (1 - VEL_MIN_AP_FACTOR);
            result = base_ap * factor;
            result = (if result < 0.15 then 0.15 else result)
        in result)"

text \<open>\<^verbatim>\<open>phase_decay_ap\<close>. Both plateau tests are strict, so at exactly 80 ms and at exactly
  200 ms the interpolation is the branch taken. At 80 ms its factor is 0 and the result is
  \<open>min_ap\<close> itself. At 200 ms its factor is 1 and the result is
  \<open>min_ap + (base_ap - min_ap)\<close>: over the reals this is \<open>base_ap\<close>, in binary32 it can fall
  one rounding step short of \<open>base_ap\<close> (it does for \<^verbatim>\<open>0.8f\<close>). No equation below is about
  the value at exactly 200 ms.\<close>

definition phase_decay_ap :: "real \<Rightarrow> real \<Rightarrow> real" where
  "phase_decay_ap base_ap counter_ms' =
     (let min_ap = 0.15
      in if counter_ms' < PHASE_ULTRA_MS then min_ap
         else if counter_ms' > PHASE_DECAY_MS then base_ap
         else
           let t = (counter_ms' - PHASE_ULTRA_MS) / (PHASE_DECAY_MS - PHASE_ULTRA_MS)
           in min_ap + t * (base_ap - min_ap))"

text \<open>\<^verbatim>\<open>strncpy(dst, src, n)\<close> into a zero-filled array of more than \<open>n\<close> bytes leaves the
  C string made of the first \<open>n\<close> characters of \<open>src\<close>.\<close>

definition strncpy_str :: "string \<Rightarrow> nat \<Rightarrow> string" where
  "strncpy_str src n = take n src"

text \<open>The \<^verbatim>\<open>switch\<close> of \<^verbatim>\<open>update_targets\<close> on the state of one axis. The source has it
  twice, for the horizontal axis with the keys \<open>K_A\<close> (negative) and \<open>K_D\<close> (positive) and
  for the vertical axis with \<open>K_S\<close> and \<open>K_W\<close>; apart from the key indices the two are the
  same text.\<close>

definition axis_targets ::
  "Config \<Rightarrow> Axis \<Rightarrow> nat \<Rightarrow> nat \<Rightarrow> real \<Rightarrow> real \<Rightarrow> real list \<times> real list
     \<Rightarrow> real list \<times> real list" where
  "axis_targets cfg ax k_neg k_pos base_rt vel_ap aprt =
     (let ap = fst aprt; rt = snd aprt
      in case state ax of
           S_IDLE \<Rightarrow>
             if jiggle_enabled cfg \<noteq> 0 \<and> is_jiggle ax
             then (ap[k_neg := vel_ap, k_pos := vel_ap], rt[k_neg := base_rt, k_pos := base_rt])
             else (ap, rt)
         | S_STRAFE_POS \<Rightarrow>
             let rt = rt[k_pos := base_rt];
                 ap = ap[k_neg := vel_ap];
                 rt = (if predictive ax \<or> (jiggle_enabled cfg \<noteq> 0 \<and> is_jiggle ax)
                       then rt[k_neg := base_rt] else rt)
             in (ap, rt)
         | S_STRAFE_NEG \<Rightarrow>
             let rt = rt[k_neg := base_rt];
                 ap = ap[k_pos := vel_ap];
                 rt = (if predictive ax \<or> (jiggle_enabled cfg \<noteq> 0 \<and> is_jiggle ax)
                       then rt[k_pos := base_rt] else rt)
             in (ap, rt)
         | S_COUNTER_POS \<Rightarrow>
             let c_ap = vel_ap;
                 c_ap = (if phase_decay cfg \<noteq> 0 then phase_decay_ap vel_ap (counter_ms ax)
                         else c_ap)
             in (ap[k_pos := c_ap], rt[k_pos := base_rt, k_neg := base_rt])
         | S_COUNTER_NEG \<Rightarrow>
             let c_ap = vel_ap;
                 c_ap = (if phase_decay cfg \<noteq> 0 then phase_decay_ap vel_ap (counter_ms ax)
                         else c_ap)
             in (ap[k_neg := c_ap], rt[k_neg := base_rt, k_pos := base_rt]))"

text \<open>The part of \<^verbatim>\<open>update_targets\<close> between the early exit and the label
  \<^verbatim>\<open>check_changed\<close>: base depths, velocity scaling, both axes, crouch.\<close>

definition policy_targets ::
  "Config \<Rightarrow> AimContext \<Rightarrow> real list \<times> real list \<Rightarrow> real list \<times> real list" where
  "policy_targets cfg ctx aprt =
     (let base_ap = fst (get_base_aggro cfg ctx);
          base_rt = snd (get_base_aggro cfg ctx);
          vel_ap = base_ap;
          vel_ap =
            (if vel_scale_enabled cfg \<noteq> 0 \<and> vel_enabled cfg \<noteq> 0 then
               let total_vel = sqrt (ve_vel (vel_h ctx) * ve_vel (vel_h ctx) +
                                     ve_vel (vel_v ctx) * ve_vel (vel_v ctx));
                   max_spd = (if weapon_speed ctx > 0 then weapon_speed ctx else 225);
                   threshold = max_spd * 0.34;
                   vel_ratio = (if threshold > 0 then total_vel / threshold else 0);
                   vel_ratio = (if vel_ratio > 1 then 1 else vel_ratio)
               in vel_scale_ap base_ap vel_ratio
             else vel_ap);
          aprt = axis_targets cfg (axis_h ctx) K_A K_D base_rt vel_ap aprt;
          aprt = (if ws_adaptive cfg \<noteq> 0
                  then axis_targets cfg (axis_v ctx) K_S K_W base_rt vel_ap aprt else aprt)
      in if crouching ctx then
           (map (\<lambda>a. if a < ap_normal cfg then a + (ap_normal cfg - a) * 0.3 else a) (fst aprt),
            map (\<lambda>r. let crt = r * crouch_rt_factor cfg
                      in if crt < base_rt then base_rt else crt) (snd aprt))
         else aprt)"

text \<open>\<^verbatim>\<open>update_targets\<close>; \<open>gsi\<close> is the content of \<^verbatim>\<open>g_gsi\<close> read under the lock.\<close>

definition update_targets :: "Config \<Rightarrow> GSIState \<Rightarrow> AimContext \<Rightarrow> AimContext" where
  "update_targets cfg gsi ctx0 =
     (let ctx = ctx0\<lparr>weapon_cat := gsi_weapon_cat gsi,
                     weapon_name := strncpy_str (gsi_weapon_name gsi) 63,
                     round_phase := strncpy_str (gsi_round_phase gsi) 15,
                     weapon_speed := gsi_weapon_speed gsi,
                     gsi_active := connected gsi\<rparr>;
          freezetime = (gsi_active ctx \<and>
                        (round_phase ctx = ''freezetime'' \<or> round_phase ctx = ''over''));
          non_combat = (gsi_active ctx \<and> weapon_cat ctx = WCAT_OTHER);
          aprt = (replicate 4 (ap_normal cfg), replicate 4 (rt_normal cfg));
          aprt = (if freezetime \<or> non_combat then aprt else policy_targets cfg ctx aprt);
          changed = list_ex (\<lambda>i. fst aprt ! i \<noteq> target_ap ctx ! i \<or>
                                  snd aprt ! i \<noteq> target_rt ctx ! i) [0..<4]
      in if changed
         then ctx\<lparr>target_ap := fst aprt, target_rt := snd aprt, needs_write := True\<rparr>
         else ctx)"

subsection \<open>Rate-limited writer\<close>

text \<open>The initialiser of the two \<^verbatim>\<open>KeySetting\<close> arrays of \<^verbatim>\<open>do_write\<close>, for the
  array of depths \<open>d\<close> (\<^verbatim>\<open>ctx->target_ap\<close> for \<^verbatim>\<open>ap[]\<close>, \<^verbatim>\<open>ctx->target_rt\<close> for
  \<^verbatim>\<open>rt[]\<close>).\<close>

definition wasd_keys :: "real list \<Rightarrow> KeySetting list" where
  "wasd_keys d =
     [\<lparr>row = KEY_W_ROW, col = KEY_W_COL, mm = d ! K_W\<rparr>,
      \<lparr>row = KEY_A_ROW, col = KEY_A_COL, mm = d ! K_A\<rparr>,
      \<lparr>row = KEY_S_ROW, col = KEY_S_COL, mm = d ! K_S\<rparr>,
      \<lparr>row = KEY_D_ROW, col = KEY_D_COL, mm = d ! K_D\<rparr>]"

text \<open>\<^verbatim>\<open>do_write\<close>; \<open>now\<close> is the counter reading taken after the first test. The result
  is the new context and the API calls issued, in order.\<close>

definition do_write ::
  "Config \<Rightarrow> int \<Rightarrow> AimContext \<Rightarrow> WootingHID option \<Rightarrow> real \<Rightarrow> AimContext \<times> hid_call list" where
  "do_write cfg now ctx hid freq =
     (if \<not> needs_write ctx \<or> hid = None then (ctx, [])
      else
        let elapsed = real_of_int (now - last_write_time ctx) * 1000 / freq
        in if elapsed < write_interval_ms cfg then (ctx, [])
           else
             let ap_keys = wasd_keys (target_ap ctx);
                 rt_keys = wasd_keys (target_rt ctx)
             in (ctx\<lparr>current_ap := target_ap ctx, current_rt := target_rt ctx,
                     needs_write := False, last_write_time := now,
                     write_count := write_count ctx + 1\<rparr>,
                 [Write_actuation hid PROFILE_IDX (Some ap_keys) 4 False,
                  Write_rt hid PROFILE_IDX (Some rt_keys) 4 False]))"

text \<open>The adaptive part of one iteration of the main loop (\<^verbatim>\<open>adaptive_mode && hid\<close>):
  the iteration has updated the axes, the crouch flag and the velocities, then calls
  \<^verbatim>\<open>update_targets\<close> and \<^verbatim>\<open>do_write\<close>. The values the iteration computed before and
  what it reads from outside are the input of the tick.\<close>

record tick_input =
  t_axis_h :: Axis
  t_axis_v :: Axis
  t_crouching :: bool
  t_vel_h :: VelEstimator
  t_vel_v :: VelEstimator
  t_gsi :: GSIState
  t_now :: int

definition tick_policy :: "Config \<Rightarrow> AimContext \<Rightarrow> tick_input \<Rightarrow> AimContext" where
  "tick_policy cfg ctx inp =
     (let ctx = ctx\<lparr>axis_h := t_axis_h inp, axis_v := t_axis_v inp,
                    crouching := t_crouching inp,
                    vel_h := t_vel_h inp, vel_v := t_vel_v inp\<rparr>
      in update_targets cfg (t_gsi inp) ctx)"

definition adaptive_tick ::
  "Config \<Rightarrow> WootingHID option \<Rightarrow> real \<Rightarrow> AimContext \<Rightarrow> tick_input
     \<Rightarrow> AimContext \<times> hid_call list" where
  "adaptive_tick cfg hid freq ctx inp =
     do_write cfg (t_now inp) (tick_policy cfg ctx inp) hid freq"

text \<open>A run of ticks; the log holds, for each tick, the counter reading of \<^verbatim>\<open>do_write\<close>
  and the API calls it issued.\<close>

fun writer_run ::
  "Config \<Rightarrow> WootingHID option \<Rightarrow> real \<Rightarrow> AimContext \<Rightarrow> tick_input list
     \<Rightarrow> (int \<times> hid_call list) list" where
  "writer_run cfg hid freq ctx [] = []"
| "writer_run cfg hid freq ctx (inp # inps) =
     (let r = adaptive_tick cfg hid freq ctx inp
      in (t_now inp, snd r) # writer_run cfg hid freq (fst r) inps)"

text \<open>The counter readings of the ticks that dispatched.\<close>

definition dispatch_times :: "(int \<times> hid_call list) list \<Rightarrow> int list" where
  "dispatch_times lg = map fst (filter (\<lambda>e. snd e \<noteq> []) lg)"


subsection \<open>A tap on D: example inputs of the main loop\<close>

text \<open>\<^verbatim>\<open>g_gsi = {0}\<close>: no message of the game has arrived.\<close>

definition gsi_zero :: GSIState where
  "gsi_zero = \<lparr> gsi_weapon_name = [], gsi_weapon_cat = WCAT_RIFLE, gsi_weapon_speed = 0,
                 gsi_round_phase = [], connected = False \<rparr>"

text \<open>The counter runs at 10 MHz. D is down (depth 0.5) in one iteration and up again in
  the next; A, W, S and crouch stay up, and the velocity estimate is still zero.\<close>

definition tap_pressed :: Axis where
  "tap_pressed =
     axis_update g_cfg \<lparr>qpc_switch = 90000, qpc_jiggle = 90000, qpc_expire = 90000\<rparr>
       axis_zero 0.5 0 0 0 10000000"

definition tap_released :: Axis where
  "tap_released =
     axis_update g_cfg \<lparr>qpc_switch = 190000, qpc_jiggle = 190000, qpc_expire = 190000\<rparr>
       tap_pressed 0 0 0.5 0 10000000"

definition tap_tick :: "Axis \<Rightarrow> int \<Rightarrow> tick_input" where
  "tap_tick ax now =
     \<lparr> t_axis_h = ax, t_axis_v = axis_zero, t_crouching = False,
       t_vel_h = \<lparr>ve_vel = 0, max_speed = 225, last_update = 0\<rparr>,
       t_vel_v = \<lparr>ve_vel = 0, max_speed = 225, last_update = 0\<rparr>,
       t_gsi = gsi_zero, t_now = now \<rparr>"

text \<open>Three iterations, 10 ms, 20 ms and 60 ms after the start of the loop.\<close>

definition tap_ticks :: "tick_input list" where
  "tap_ticks = [tap_tick tap_pressed 100000, tap_tick tap_released 200000,
                tap_tick tap_released 600000]"

definition tap_hid :: "WootingHID option" where
  "tap_hid = Some \<lparr>handle = 1, active_profile = 0\<rparr>"

text \<open>The context after the first two of these iterations.\<close>

definition tap_ctx2 :: AimContext where
  "tap_ctx2 =
     fst (adaptive_tick g_cfg tap_hid 10000000
            (fst (adaptive_tick g_cfg tap_hid 10000000 (ctx_init g_cfg 0 0)
                    (tap_tick tap_pressed 100000)))
            (tap_tick tap_released 200000))"

section \<open>Properties of hid\_writer.c\<close>

subsection \<open>Firmware values\<close>










lemma mm_to_firmware_2_5: "mm_to_firmware (2 / 5) = Some 26"
  by (simp add: mm_to_firmware_def float_to_int_def Let_def)




subsection \<open>The frame of a single key\<close>

lemma encode_key_entry_D: "encode_key_entry 26 3 3 = 6755"
  by (simp add: encode_key_entry_def linear_key_index_def Let_def)

lemma encode_varint_6755: "encode_varint 6755 = [0xE3, 0x34]"
  by (simp add: encode_varint.simps)

lemma encode_varint_3: "encode_varint 3 = [3]"
  by (simp add: encode_varint.simps)

lemma build_partial_proto_D:
  "build_partial_proto 512 [\<lparr>row = 3, col = 3, mm = 0.4\<rparr>] 1 =
     Defined (Some [0x12, 0x03, 0x08, 0xE3, 0x34])"
  by (simp add: build_partial_proto_def build_inner.simps mm_to_firmware_2_5
      encode_key_entry_D encode_varint_6755 encode_varint_3 Let_def)

lemma pick_report_id_11: "pick_report_id 11 = 1"
  by (simp add: pick_report_id_def pick_report_id_from.simps NUM_REPORT_SIZES_def
      REPORT_SIZES_def)

lemma send_data_buf_D:
  "send_data_buf cmd options [0x12, 0x03, 0x08, 0xE3, 0x34] =
     [1, 0xD1, 0xDA, cmd, options, 0x05, 0x00, 0x12, 0x03, 0x08, 0xE3, 0x34] @ replicate 21 0"
  by (simp add: send_data_buf_def pick_report_id_11 REPORT_SIZES_def Let_def memcpy_at_def
      MAGIC_0_def MAGIC_1_def eval_nat_numeral)

text \<open>
  C8. Building a write for the single key \<open>(row = 3, col = 3, mm = 0.4)\<close>: the firmware
  value is 26, the entry \<open>(26 << 8) | 99 = 6755\<close>, the encoded tagged body
  \<open>[0x12, 0x03, 0x08, 0xE3, 0x34]\<close> of length 5, the framed payload has 11 bytes and
  report id 1 (capacity 32, the first id the search tries) fits it, and the buffer handed
  to the device is \<open>[1, 0xD1, 0xDA, 21, options, 0x05, 0x00, 0x12, 0x03, 0x08, 0xE3, 0x34]\<close>
  followed by zeros, 33 bytes in all.
\<close>

theorem single_key_frame:
  "mm_to_firmware 0.4 = Some 26
   \<and> map_option (\<lambda>fw_val. encode_key_entry fw_val 3 3) (mm_to_firmware 0.4) = Some 6755
   \<and> push_bit 8 (26 :: 16 word) OR 99 = 6755
   \<and> build_partial_proto 512 [\<lparr>row = 3, col = 3, mm = 0.4\<rparr>] 1 =
       Defined (Some [0x12, 0x03, 0x08, 0xE3, 0x34])
   \<and> length [0x12, 0x03, 0x08, 0xE3, 0x34 :: 8 word] = 5
   \<and> 6 + int (length [0x12, 0x03, 0x08, 0xE3, 0x34 :: 8 word]) = 11
   \<and> pick_report_id 11 = 1
   \<and> REPORT_SIZES ! 1 = 32
   \<and> send_data_buf CMD_ACTUATION options [0x12, 0x03, 0x08, 0xE3, 0x34] =
       [1, 0xD1, 0xDA, 21, options, 0x05, 0x00, 0x12, 0x03, 0x08, 0xE3, 0x34] @ replicate 21 0
   \<and> length (send_data_buf CMD_ACTUATION options [0x12, 0x03, 0x08, 0xE3, 0x34]) = 33"
  using build_partial_proto_D
  by (simp add: mm_to_firmware_2_5 encode_key_entry_D
      pick_report_id_11 send_data_buf_D REPORT_SIZES_def CMD_ACTUATION_def)

subsection \<open>Argument checks of the write functions\<close>

text \<open>
  C10. For every device handle, key array and count, \<^verbatim>\<open>wooting_hid_write_actuation\<close>
  and \<^verbatim>\<open>wooting_hid_write_rt\<close> return \<open>false\<close> and perform no device I/O whenever the
  device handle is \<^verbatim>\<open>NULL\<close>, the key array is \<^verbatim>\<open>NULL\<close> or \<open>count \<le> 0\<close>. (Neither
  function assigns to the device record or to the keys, so there is no other state to
  change.)
\<close>

theorem write_rejects_null_or_empty:
  assumes "dev = None \<or> keys = None \<or> count \<le> 0"
  shows "wooting_hid_write_actuation env dev profile_idx keys count save = Defined (False, [])
         \<and> wooting_hid_write_rt env dev profile_idx keys count save = Defined (False, [])"
  using assms by (auto simp add: wooting_hid_write_actuation_def wooting_hid_write_rt_def)

theorem write_rejects_null_or_empty_witness:
  "((Some \<lparr>handle = 1, active_profile = 0\<rparr> = None
       \<or> Some [\<lparr>row = 3, col = 3, mm = 0.4\<rparr>] = None \<or> (0 :: int) \<le> 0)
    \<and> wooting_hid_write_actuation \<lparr>calloc_ok = True, hid_write_ret = 33\<rparr>
         (Some \<lparr>handle = 1, active_profile = 0\<rparr>) 0 (Some [\<lparr>row = 3, col = 3, mm = 0.4\<rparr>])
         0 False = Defined (False, [])
    \<and> wooting_hid_write_rt \<lparr>calloc_ok = True, hid_write_ret = 33\<rparr>
         (Some \<lparr>handle = 1, active_profile = 0\<rparr>) 0 (Some [\<lparr>row = 3, col = 3, mm = 0.4\<rparr>])
         0 False = Defined (False, []))
   \<and> wooting_hid_write_actuation \<lparr>calloc_ok = True, hid_write_ret = 33\<rparr>
         None 0 (Some [\<lparr>row = 3, col = 3, mm = 0.4\<rparr>]) 1 False = Defined (False, [])
   \<and> wooting_hid_write_rt \<lparr>calloc_ok = True, hid_write_ret = 33\<rparr>
         (Some \<lparr>handle = 1, active_profile = 0\<rparr>) 0 None 1 False = Defined (False, [])"
  using write_rejects_null_or_empty
          [of "Some \<lparr>handle = 1, active_profile = 0\<rparr>" "Some [\<lparr>row = 3, col = 3, mm = 0.4\<rparr>]"
              0 "\<lparr>calloc_ok = True, hid_write_ret = 33\<rparr>" 0 False]
        write_rejects_null_or_empty
          [of None "Some [\<lparr>row = 3, col = 3, mm = 0.4\<rparr>]" 1
              "\<lparr>calloc_ok = True, hid_write_ret = 33\<rparr>" 0 False]
        write_rejects_null_or_empty
          [of "Some \<lparr>handle = 1, active_profile = 0\<rparr>" None 1
              "\<lparr>calloc_ok = True, hid_write_ret = 33\<rparr>" 0 False]
  by simp

section \<open>Properties of the axis state machine\<close>

lemma state_axis_jiggle_record: "state (axis_jiggle_record clk ax freq) = state ax"
  by (simp add: axis_jiggle_record_def Let_def)

lemma state_axis_jiggle_expire: "state (axis_jiggle_expire clk ax freq) = state ax"
  by (simp add: axis_jiggle_expire_def Let_def)

lemma state_axis_update:
  "state (axis_update cfg clk ax pos neg prev_pos prev_neg freq) =
   state (axis_switch cfg clk (ax\<lparr>prev := state ax, predictive := False\<rparr>) pos neg
            (pos > DEAD_ZONE) (neg > DEAD_ZONE)
            (pos > DEAD_ZONE \<and> prev_pos \<le> DEAD_ZONE)
            (neg > DEAD_ZONE \<and> prev_neg \<le> DEAD_ZONE) freq)"
  by (simp add: axis_update_def Let_def state_axis_jiggle_record state_axis_jiggle_expire)

lemmas axis_eval =
  axis_update_def axis_switch_def axis_jiggle_record_def axis_jiggle_expire_def axis_zero_def
  DEAD_ZONE_def JIGGLE_WINDOW_MS_def JIGGLE_MIN_COUNT_def g_cfg_def Let_def

text \<open>
  C1. The claim: in every state other than IDLE that is reached from the zeroed axis, at
  most one of \<open>pos_peak\<close> and \<open>neg_peak\<close> is nonzero, also across the transitions from
  COUNTER to STRAFE. The code at three samples of the main loop: D is pressed (IDLE to
  STRAFE\_POS, which sets \<open>pos_peak\<close> and clears \<open>neg_peak\<close>), A is pressed as well
  (STRAFE\_POS to COUNTER\_NEG), D is released (COUNTER\_NEG to STRAFE\_NEG, which sets
  \<open>neg_peak\<close> and leaves \<open>pos_peak\<close> as it was). The axis is then in STRAFE\_NEG with both
  peaks at 0.5.
\<close>

theorem counter_exit_keeps_both_peaks:
  "axis_run g_cfg 10000000 axis_zero 0 0
     [(\<lparr>qpc_switch = 1000, qpc_jiggle = 1000, qpc_expire = 1000\<rparr>, 0.5, 0),
      (\<lparr>qpc_switch = 2000, qpc_jiggle = 2000, qpc_expire = 2000\<rparr>, 0.5, 0.5),
      (\<lparr>qpc_switch = 3000, qpc_jiggle = 3000, qpc_expire = 3000\<rparr>, 0, 0.5)] =
   \<lparr> state = S_STRAFE_NEG, prev = S_COUNTER_NEG, pos_peak = 0.5, neg_peak = 0.5,
     predictive = False, counter_start = 2000, counter_ms = 0.1, counter_count = 1,
     counter_total_ms = 0.1, jiggle_times = [2000, 0, 0, 0], jiggle_idx = 1,
     is_jiggle = False, jiggle_last = 0 \<rparr>"
  by (simp add: axis_eval)

text \<open>
  C2, as amended. From state IDLE, \<^verbatim>\<open>axis_update\<close> moves to STRAFE\_POS exactly when the
  positive direction is active and the negative one is not, \<open>pos > DEAD_ZONE\<close> and
  \<open>neg \<le> DEAD_ZONE\<close>; the samples of the previous tick are not consulted.
\<close>

theorem idle_to_strafe_pos_on_level:
  assumes "state ax = S_IDLE"
  shows "(state (axis_update cfg clk ax pos neg prev_pos prev_neg freq) = S_STRAFE_POS)
         = (pos > DEAD_ZONE \<and> neg \<le> DEAD_ZONE)"
  using assms by (auto simp add: state_axis_update axis_switch_def Let_def)

theorem idle_to_strafe_pos_on_level_witness:
  "state axis_zero = S_IDLE
   \<and> (state (axis_update g_cfg \<lparr>qpc_switch = 1000, qpc_jiggle = 1000, qpc_expire = 1000\<rparr>
                axis_zero 0.5 0 0 0 10000000) = S_STRAFE_POS)
     = ((0.5 :: real) > DEAD_ZONE \<and> (0 :: real) \<le> DEAD_ZONE)
   \<and> state (axis_update g_cfg \<lparr>qpc_switch = 1000, qpc_jiggle = 1000, qpc_expire = 1000\<rparr>
               axis_zero 0.5 0 0 0 10000000) = S_STRAFE_POS"
  using idle_to_strafe_pos_on_level
          [of axis_zero g_cfg "\<lparr>qpc_switch = 1000, qpc_jiggle = 1000, qpc_expire = 1000\<rparr>"
              "0.5" 0 0 0 10000000]
  by (simp add: axis_zero_def DEAD_ZONE_def)

text \<open>
  C2, as stated, fails: with both keys down the axis stays in IDLE; when A is then
  released, D has been above the dead zone on the previous sample (no rising edge), and
  the axis moves to STRAFE\_POS all the same.
\<close>

theorem idle_to_strafe_pos_without_rising_edge:
  "state (axis_run g_cfg 10000000 axis_zero 0 0
            [(\<lparr>qpc_switch = 1000, qpc_jiggle = 1000, qpc_expire = 1000\<rparr>, 0.5, 0.5)]) = S_IDLE
   \<and> \<not> (0.5 :: real) \<le> DEAD_ZONE
   \<and> state (axis_run g_cfg 10000000 axis_zero 0 0
              [(\<lparr>qpc_switch = 1000, qpc_jiggle = 1000, qpc_expire = 1000\<rparr>, 0.5, 0.5),
               (\<lparr>qpc_switch = 2000, qpc_jiggle = 2000, qpc_expire = 2000\<rparr>, 0.5, 0)])
       = S_STRAFE_POS"
  by (simp add: axis_eval)

section \<open>Properties of the velocity estimator\<close>

lemma clamp_vel_bound:
  assumes "0 \<le> m"
  shows "\<bar>clamp_vel v m\<bar> \<le> m" and "\<bar>clamp_vel v m\<bar> < 0.5 \<Longrightarrow> clamp_vel v m = 0"
  using assms by (auto simp add: clamp_vel_def Let_def split: if_splits)

text \<open>\<^verbatim>\<open>vel_step\<close> of test\_math.c ends with the clamp on every path: whatever the old
  velocity, the keys and \<open>dt\<close>, its result is within the ceiling and snapped.\<close>

lemma vel_step_bound:
  assumes "0 \<le> m"
  shows "\<bar>vel_step v pk nk m dt\<bar> \<le> m"
    and "\<bar>vel_step v pk nk m dt\<bar> < 0.5 \<Longrightarrow> vel_step v pk nk m dt = 0"
  using assms clamp_vel_bound by (simp_all add: vel_step_def Let_def)

text \<open>\<^verbatim>\<open>vel_update\<close> either returns early, and then stores the ceiling and the reading
  and nothing else, or applies \<^verbatim>\<open>vel_step\<close> to the elapsed time.\<close>

lemma vel_update_skipped:
  "vel_update_skips ve now freq \<Longrightarrow>
   vel_update ve p n m now freq = ve\<lparr>max_speed := m, last_update := now\<rparr>"
  by (simp add: vel_update_def vel_update_skips_def Let_def)

lemma vel_update_applied:
  "\<not> vel_update_skips ve now freq \<Longrightarrow>
   vel_update ve p n m now freq =
     ve\<lparr>ve_vel := vel_step (ve_vel ve) (p > DEAD_ZONE) (n > DEAD_ZONE) m
                  (real_of_int (now - last_update ve) / freq),
        max_speed := m, last_update := now\<rparr>"
  by (simp add: vel_update_def vel_update_skips_def vel_step_def Let_def)

lemma max_speed_vel_update: "max_speed (vel_update ve p n m now freq) = m"
  by (cases "vel_update_skips ve now freq") (simp_all add: vel_update_skipped vel_update_applied)

lemma vel_update_within:
  assumes m: "0 \<le> m" and b: "\<bar>ve_vel ve\<bar> \<le> max_speed ve"
    and z: "\<bar>ve_vel ve\<bar> < 0.5 \<longrightarrow> ve_vel ve = 0"
    and k: "vel_update_skips ve now freq \<Longrightarrow> max_speed ve \<le> m"
  shows "\<bar>ve_vel (vel_update ve p n m now freq)\<bar> \<le> max_speed (vel_update ve p n m now freq)
         \<and> (\<bar>ve_vel (vel_update ve p n m now freq)\<bar> < 0.5
              \<longrightarrow> ve_vel (vel_update ve p n m now freq) = 0)"
proof (cases "vel_update_skips ve now freq")
  case True
  with b z k show ?thesis by (simp add: vel_update_skipped)
next
  case False
  with vel_step_bound [OF m, of "ve_vel ve" "p > DEAD_ZONE" "n > DEAD_ZONE"
     "real_of_int (now - last_update ve) / freq"]
  show ?thesis by (simp add: vel_update_applied)
qed

text \<open>A run with one ceiling throughout keeps the ceiling.\<close>

lemma ceiling_kept_constant:
  "0 \<le> m \<Longrightarrow> max_speed ve \<le> m \<Longrightarrow> \<forall>i \<in> set ins. fst (snd (snd i)) = m
   \<Longrightarrow> ceiling_kept freq ve ins"
proof (induction ins arbitrary: ve)
  case Nil
  then show ?case by simp
next
  case (Cons i ins)
  obtain p n c now where i: "i = (p, n, c, now)" by (cases i) auto
  with Cons.prems have c: "c = m" by simp
  have "ceiling_kept freq (vel_update ve p n m now freq) ins"
    using Cons.prems by (intro Cons.IH) (simp_all add: max_speed_vel_update)
  with Cons.prems show ?case by (simp add: i c)
qed

text \<open>
  C3, as amended. For every finite sequence of velocity updates (any key inputs, any
  counter readings and so any \<open>dt\<close> per step) whose ceilings are non-negative and in which
  no update that returns early (\<open>dt \<le> 0\<close> or \<open>dt > 0.1\<close>) passes a ceiling below the one
  the estimator holds, started from an estimator that is within its ceiling and snapped
  (the zeroed one is): after each update the velocity is within
  \<open>[- max_speed, + max_speed]\<close>, and it is exactly 0 whenever its absolute value is below
  0.5. Runs with one ceiling throughout are such sequences (\<open>ceiling_kept_constant\<close>).
\<close>

theorem vel_run_within_ceiling:
  assumes "0 < freq"
    and "\<bar>ve_vel ve\<bar> \<le> max_speed ve"
    and "\<bar>ve_vel ve\<bar> < 0.5 \<longrightarrow> ve_vel ve = 0"
    and "ceiling_kept freq ve ins"
  shows "\<forall>ve' \<in> set (vel_run freq ve ins).
           - max_speed ve' \<le> ve_vel ve' \<and> ve_vel ve' \<le> max_speed ve'
           \<and> (\<bar>ve_vel ve'\<bar> < 0.5 \<longrightarrow> ve_vel ve' = 0)"
  using assms(2-)
proof (induction ins arbitrary: ve)
  case Nil
  then show ?case by simp
next
  case (Cons i ins)
  obtain p n m now where i: "i = (p, n, m, now)" by (cases i) auto
  let ?ve = "vel_update ve p n m now freq"
  from Cons.prems(3) have k: "0 \<le> m" "vel_update_skips ve now freq \<Longrightarrow> max_speed ve \<le> m"
    "ceiling_kept freq ?ve ins"
    by (auto simp add: i split: if_splits)
  have w: "\<bar>ve_vel ?ve\<bar> \<le> max_speed ?ve \<and> (\<bar>ve_vel ?ve\<bar> < 0.5 \<longrightarrow> ve_vel ?ve = 0)"
    using k(1) Cons.prems(1,2) k(2) by (rule vel_update_within)
  then have "\<forall>ve' \<in> set (vel_run freq ?ve ins).
           - max_speed ve' \<le> ve_vel ve' \<and> ve_vel ve' \<le> max_speed ve'
           \<and> (\<bar>ve_vel ve'\<bar> < 0.5 \<longrightarrow> ve_vel ve' = 0)"
    using k(3) by (intro Cons.IH) simp_all
  moreover have "- max_speed ?ve \<le> ve_vel ?ve \<and> ve_vel ?ve \<le> max_speed ?ve" using w by linarith
  ultimately show ?case using w by (simp add: i Let_def)
qed

text \<open>Three updates at 10 MHz with D held: 80 ms and 160 ms after the start, and a third
  one 200 ms later, which returns early.\<close>

lemma vel_tick1:
  "vel_update \<lparr>ve_vel = 0, max_speed = 225, last_update = 0\<rparr> 1 0 250 800000 10000000
   = \<lparr>ve_vel = 110, max_speed = 250, last_update = 800000\<rparr>"
proof -
  have f: "apply_friction 0 (2 / 25) = 0"
    by (simp add: apply_friction_def)
  have a: "apply_acceleration 0 True False 250 (2 / 25) = 110"
    by (simp add: apply_acceleration_def SV_ACCELERATE_def)
  have c: "clamp_vel 110 250 = 110"
    by (simp add: clamp_vel_def)
  show ?thesis by (simp add: vel_update_def DEAD_ZONE_def f a c)
qed

lemma vel_tick2:
  "vel_update \<lparr>ve_vel = 110, max_speed = 250, last_update = 800000\<rparr> 1 0 250 1600000 10000000
   = \<lparr>ve_vel = 4356 / 25, max_speed = 250, last_update = 1600000\<rparr>"
proof -
  have f: "apply_friction 110 (2 / 25) = 1606 / 25"
    by (simp add: apply_friction_def SV_STOPSPEED_def SV_FRICTION_def)
  have a: "apply_acceleration (1606 / 25) True False 250 (2 / 25) = 4356 / 25"
    by (simp add: apply_acceleration_def SV_ACCELERATE_def)
  have c: "clamp_vel (4356 / 25) 250 = 4356 / 25"
    by (simp add: clamp_vel_def)
  show ?thesis by (simp add: vel_update_def DEAD_ZONE_def f a c)
qed

lemma vel_tick3:
  "vel_update \<lparr>ve_vel = 4356 / 25, max_speed = 250, last_update = 1600000\<rparr> 1 0 m 3600000 10000000
   = \<lparr>ve_vel = 4356 / 25, max_speed = m, last_update = 3600000\<rparr>"
  by (simp add: vel_update_def)

theorem vel_run_within_ceiling_witness:
  "(0 :: real) < 10000000
   \<and> ceiling_kept 10000000 \<lparr>ve_vel = 0, max_speed = 225, last_update = 0\<rparr>
       [(1, 0, 250, 800000), (1, 0, 250, 1600000), (1, 0, 250, 3600000)]
   \<and> vel_run 10000000 \<lparr>ve_vel = 0, max_speed = 225, last_update = 0\<rparr>
       [(1, 0, 250, 800000), (1, 0, 250, 1600000), (1, 0, 250, 3600000)] =
      [\<lparr>ve_vel = 110, max_speed = 250, last_update = 800000\<rparr>,
       \<lparr>ve_vel = 4356 / 25, max_speed = 250, last_update = 1600000\<rparr>,
       \<lparr>ve_vel = 4356 / 25, max_speed = 250, last_update = 3600000\<rparr>]
   \<and> list_all (\<lambda>ve'. - max_speed ve' \<le> ve_vel ve' \<and> ve_vel ve' \<le> max_speed ve')
       (vel_run 10000000 \<lparr>ve_vel = 0, max_speed = 225, last_update = 0\<rparr>
          [(1, 0, 250, 800000), (1, 0, 250, 1600000), (1, 0, 250, 3600000)])"
proof -
  let ?ve = "\<lparr>ve_vel = 0, max_speed = 225, last_update = 0\<rparr>"
  let ?ins = "[(1, 0, 250, 800000), (1, 0, 250, 1600000), (1, 0, 250, 3600000)]
                :: (real \<times> real \<times> real \<times> int) list"
  have r: "vel_run 10000000 ?ve ?ins =
      [\<lparr>ve_vel = 110, max_speed = 250, last_update = 800000\<rparr>,
       \<lparr>ve_vel = 4356 / 25, max_speed = 250, last_update = 1600000\<rparr>,
       \<lparr>ve_vel = 4356 / 25, max_speed = 250, last_update = 3600000\<rparr>]"
    by (simp add: vel_tick1 vel_tick2 vel_tick3)
  have k: "ceiling_kept 10000000 ?ve ?ins"
    by (simp add: vel_tick1 vel_tick2 vel_tick3 vel_update_skips_def)
  have "\<forall>ve' \<in> set (vel_run 10000000 ?ve ?ins).
           - max_speed ve' \<le> ve_vel ve' \<and> ve_vel ve' \<le> max_speed ve'
           \<and> (\<bar>ve_vel ve'\<bar> < 0.5 \<longrightarrow> ve_vel ve' = 0)"
    using k by (intro vel_run_within_ceiling) simp_all
  then have l: "list_all (\<lambda>ve'. - max_speed ve' \<le> ve_vel ve' \<and> ve_vel ve' \<le> max_speed ve')
       (vel_run 10000000 ?ve ?ins)"
    unfolding list_all_iff by blast
  have z: "(0 :: real) < 10000000" by simp
  show ?thesis by (intro conjI z k r l)
qed

text \<open>
  C3, as stated, fails when the ceiling changes: the player runs with the knife (ceiling
  250) and reaches 174.24 units/s, switches to a weapon with ceiling 150, and the next
  update comes more than 0.1 s after the last one. That update stores the new ceiling and
  returns before the clamp, so the velocity is above the ceiling after it.
\<close>

theorem vel_above_lowered_ceiling:
  "vel_run 10000000 \<lparr>ve_vel = 0, max_speed = 225, last_update = 0\<rparr>
     [(1, 0, 250, 800000), (1, 0, 250, 1600000), (1, 0, 150, 3600000)] =
     [\<lparr>ve_vel = 110, max_speed = 250, last_update = 800000\<rparr>,
      \<lparr>ve_vel = 4356 / 25, max_speed = 250, last_update = 1600000\<rparr>,
      \<lparr>ve_vel = 4356 / 25, max_speed = 150, last_update = 3600000\<rparr>]
   \<and> \<not> ve_vel \<lparr>ve_vel = 4356 / 25, max_speed = 150, last_update = 3600000\<rparr>
         \<le> max_speed \<lparr>ve_vel = 4356 / 25, max_speed = 150, last_update = (3600000 :: int)\<rparr>"
  by (simp add: vel_tick1 vel_tick2 vel_tick3)

section \<open>Properties of the adaptive policy\<close>

subsection \<open>Phase decay\<close>

lemma phase_decay_ap_ultra: "t \<le> 80 \<Longrightarrow> phase_decay_ap b t = 3 / 20"
  by (simp add: phase_decay_ap_def PHASE_ULTRA_MS_def PHASE_DECAY_MS_def Let_def)

lemma phase_decay_ap_late: "200 < t \<Longrightarrow> phase_decay_ap b t = b"
  by (simp add: phase_decay_ap_def PHASE_ULTRA_MS_def PHASE_DECAY_MS_def Let_def)

lemma phase_decay_ap_mid:
  "80 \<le> t \<Longrightarrow> t \<le> 200 \<Longrightarrow> phase_decay_ap b t = 3 / 20 + (t - 80) / 120 * (b - 3 / 20)"
  by (simp add: phase_decay_ap_def PHASE_ULTRA_MS_def PHASE_DECAY_MS_def Let_def)

lemma phase_decay_ap_mono:
  assumes b: "3 / 20 \<le> b" and t: "t1 \<le> t2"
  shows "phase_decay_ap b t1 \<le> phase_decay_ap b t2"
proof -
  have d: "0 \<le> b - 3 / 20" using b by simp
  consider "t2 \<le> 80" | "t1 \<le> 80" "80 \<le> t2" "t2 \<le> 200" | "t1 \<le> 80" "200 < t2"
    | "80 \<le> t1" "t2 \<le> 200" | "80 \<le> t1" "t1 \<le> 200" "200 < t2" | "200 < t1"
    using t by linarith
  then show ?thesis
  proof cases
    case 1
    with t show ?thesis by (simp add: phase_decay_ap_ultra)
  next
    case 2
    define s where "s = (t2 - 80) / 120 * (b - 3 / 20)"
    have "0 \<le> s" unfolding s_def using 2 d by (intro mult_nonneg_nonneg) simp_all
    moreover have "phase_decay_ap b t2 = 3 / 20 + s"
      unfolding s_def using 2 by (intro phase_decay_ap_mid)
    moreover have "phase_decay_ap b t1 = 3 / 20" using 2 by (intro phase_decay_ap_ultra)
    ultimately show ?thesis by linarith
  next
    case 3
    with b show ?thesis by (simp add: phase_decay_ap_ultra phase_decay_ap_late)
  next
    case 4
    define s1 where "s1 = (t1 - 80) / 120 * (b - 3 / 20)"
    define s2 where "s2 = (t2 - 80) / 120 * (b - 3 / 20)"
    have "s1 \<le> s2" unfolding s1_def s2_def using t d by (intro mult_right_mono) simp_all
    moreover have "phase_decay_ap b t1 = 3 / 20 + s1"
      unfolding s1_def using 4 t by (intro phase_decay_ap_mid) simp_all
    moreover have "phase_decay_ap b t2 = 3 / 20 + s2"
      unfolding s2_def using 4 t by (intro phase_decay_ap_mid) simp_all
    ultimately show ?thesis by linarith
  next
    case 5
    define s where "s = (t1 - 80) / 120 * (b - 3 / 20)"
    have "s \<le> 1 * (b - 3 / 20)" unfolding s_def using 5 d by (intro mult_right_mono) simp_all
    then have "s \<le> b - 3 / 20" by simp
    moreover have "phase_decay_ap b t1 = 3 / 20 + s"
      unfolding s_def using 5 by (intro phase_decay_ap_mid)
    moreover have "phase_decay_ap b t2 = b" using 5 by (intro phase_decay_ap_late)
    ultimately show ?thesis by linarith
  next
    case 6
    with t show ?thesis by (simp add: phase_decay_ap_late)
  qed
qed

text \<open>
  C4, as amended. For every \<open>base_ap \<ge> 0.15\<close>, \<open>phase_decay_ap base_ap\<close> is monotonic
  non-decreasing in the elapsed time; for every \<open>base_ap\<close>, also below 0.15, it equals
  0.15 for an elapsed time of at most 80 ms and \<open>base_ap\<close> for an elapsed time above
  200 ms.
\<close>

theorem phase_decay_ap_shape:
  "(0.15 \<le> base_ap \<and> t1 \<le> t2 \<longrightarrow> phase_decay_ap base_ap t1 \<le> phase_decay_ap base_ap t2)
   \<and> (t \<le> 80 \<longrightarrow> phase_decay_ap b t = 0.15)
   \<and> (200 < t \<longrightarrow> phase_decay_ap b t = b)"
  using phase_decay_ap_mono [of base_ap t1 t2] phase_decay_ap_ultra [of t b]
    phase_decay_ap_late [of t b]
  by simp

theorem phase_decay_ap_shape_witness:
  "(0.15 :: real) \<le> 0.4 \<and> (100 :: real) \<le> 150
   \<and> phase_decay_ap 0.4 100 \<le> phase_decay_ap 0.4 150
   \<and> (40 :: real) \<le> 80 \<and> phase_decay_ap 0.1 40 = 0.15
   \<and> (200 :: real) < 300 \<and> phase_decay_ap 0.1 300 = 0.1"
  using phase_decay_ap_shape [of "0.4" 100 150 40 "0.1"]
    phase_decay_ap_shape [of "0.4" 100 150 300 "0.1"]
  by simp

text \<open>
  C4, as stated, fails for \<open>base_ap < 0.15\<close>: with \<open>base_ap = 0.1\<close> the value is 0.15 at
  0 ms and 0.1 at 300 ms, so it decreases.
\<close>

theorem phase_decay_ap_decreases_for_low_base:
  "phase_decay_ap 0.1 0 = 0.15 \<and> phase_decay_ap 0.1 300 = 0.1
   \<and> \<not> phase_decay_ap 0.1 0 \<le> phase_decay_ap 0.1 300"
  by (simp add: phase_decay_ap_def PHASE_ULTRA_MS_def PHASE_DECAY_MS_def Let_def)

subsection \<open>Velocity scaling\<close>

lemma vel_scale_ap_low: "r < 1 / 2 \<Longrightarrow> vel_scale_ap b r = b"
  by (simp add: vel_scale_ap_def VEL_AGGRO_ZONE_def)

lemma vel_scale_ap_high:
  assumes "1 / 2 \<le> r"
  shows "vel_scale_ap b r = max (3 / 20) (b * (3 / 2 - r))"
proof -
  have f: "1 - (r - VEL_AGGRO_ZONE) / (1 - VEL_AGGRO_ZONE) * (1 - VEL_MIN_AP_FACTOR) = 3 / 2 - r"
    by (simp add: VEL_AGGRO_ZONE_def VEL_MIN_AP_FACTOR_def diff_divide_distrib)
  have "\<not> r < VEL_AGGRO_ZONE" using assms by (simp add: VEL_AGGRO_ZONE_def)
  then show ?thesis unfolding vel_scale_ap_def Let_def f by (simp add: max_def)
qed

lemma vel_scale_ap_base:
  assumes "3 / 20 \<le> b" and "r \<le> 1 / 2"
  shows "vel_scale_ap b r = b"
proof (cases "r < 1 / 2")
  case True
  then show ?thesis by (rule vel_scale_ap_low)
next
  case False
  with assms have r: "r = 1 / 2" by simp
  have "vel_scale_ap b (1 / 2) = max (3 / 20) (b * (3 / 2 - 1 / 2))"
    by (intro vel_scale_ap_high) simp
  with assms(1) have "vel_scale_ap b (1 / 2) = b" by (simp add: max_def)
  then show ?thesis unfolding r .
qed

lemma vel_scale_ap_floor:
  assumes "3 / 20 \<le> b"
  shows "3 / 20 \<le> vel_scale_ap b r"
proof (cases "r < 1 / 2")
  case True
  with assms show ?thesis by (simp add: vel_scale_ap_low)
next
  case False
  then have "vel_scale_ap b r = max (3 / 20) (b * (3 / 2 - r))"
    by (intro vel_scale_ap_high) simp
  then show ?thesis by simp
qed

lemma vel_scale_ap_antimono:
  assumes b: "3 / 20 \<le> b" and r: "r1 \<le> r2"
  shows "vel_scale_ap b r2 \<le> vel_scale_ap b r1"
proof -
  have b0: "0 \<le> b" using b by simp
  consider "r2 < 1 / 2" | "r1 < 1 / 2" "1 / 2 \<le> r2" | "1 / 2 \<le> r1" using r by linarith
  then show ?thesis
  proof cases
    case 1
    with r show ?thesis by (simp add: vel_scale_ap_low)
  next
    case 2
    define p where "p = b * (3 / 2 - r2)"
    have "p \<le> b * 1" unfolding p_def using 2 b0 by (intro mult_left_mono) simp_all
    then have "p \<le> b" by simp
    moreover have "vel_scale_ap b r2 = max (3 / 20) p"
      unfolding p_def using 2 by (intro vel_scale_ap_high)
    moreover have "vel_scale_ap b r1 = b" using 2 by (intro vel_scale_ap_low)
    ultimately show ?thesis using b by (simp add: max_def)
  next
    case 3
    define p1 where "p1 = b * (3 / 2 - r1)"
    define p2 where "p2 = b * (3 / 2 - r2)"
    have "p2 \<le> p1" unfolding p1_def p2_def using r b0 by (intro mult_left_mono) simp_all
    moreover have "vel_scale_ap b r1 = max (3 / 20) p1"
      unfolding p1_def using 3 by (intro vel_scale_ap_high)
    moreover have "vel_scale_ap b r2 = max (3 / 20) p2"
      unfolding p2_def using 3 r by (intro vel_scale_ap_high) simp
    ultimately show ?thesis by (simp add: max_def)
  qed
qed

text \<open>
  C5, as amended. For every \<open>base_ap \<ge> 0.15\<close> and every \<open>vel_ratio\<close> (in \<open>[0, 1]\<close> and
  beyond), \<open>vel_scale_ap base_ap vel_ratio\<close> equals \<open>base_ap\<close> for \<open>vel_ratio \<le> 0.5\<close>, is
  monotonically non-increasing in \<open>vel_ratio\<close>, and is never below 0.15.
\<close>

theorem vel_scale_ap_shape:
  assumes "0.15 \<le> base_ap"
  shows "(r \<le> 0.5 \<longrightarrow> vel_scale_ap base_ap r = base_ap)
         \<and> (r1 \<le> r2 \<longrightarrow> vel_scale_ap base_ap r2 \<le> vel_scale_ap base_ap r1)
         \<and> 0.15 \<le> vel_scale_ap base_ap r"
  using assms vel_scale_ap_base [of base_ap r] vel_scale_ap_antimono [of base_ap r1 r2]
    vel_scale_ap_floor [of base_ap r]
  by simp

theorem vel_scale_ap_shape_witness:
  "(0.15 :: real) \<le> 0.4 \<and> (0.5 :: real) \<le> 0.5 \<and> vel_scale_ap 0.4 0.5 = 0.4
   \<and> (0.75 :: real) \<le> 1 \<and> vel_scale_ap 0.4 1 \<le> vel_scale_ap 0.4 0.75
   \<and> 0.15 \<le> vel_scale_ap 0.4 0.5"
  using vel_scale_ap_shape [of "0.4" "0.5" "0.75" 1]
  by simp

text \<open>
  C5, as stated, fails for \<open>base_ap < 0.15\<close>: with \<open>base_ap = 0.1\<close> the result at
  \<open>vel_ratio = 0.3\<close> is 0.1, below 0.15, and the result at \<open>vel_ratio = 0.5\<close> is 0.15, not
  \<open>base_ap\<close>.
\<close>

theorem vel_scale_ap_low_base:
  "vel_scale_ap 0.1 0.3 = 0.1 \<and> \<not> 0.15 \<le> vel_scale_ap 0.1 0.3
   \<and> vel_scale_ap 0.1 0.5 = 0.15 \<and> vel_scale_ap 0.1 0.5 \<noteq> 0.1"
  by (simp add: vel_scale_ap_def VEL_AGGRO_ZONE_def VEL_MIN_AP_FACTOR_def Let_def)

subsection \<open>Early exit of the policy\<close>

lemma strncpy_str_freezetime: "strncpy_str ''freezetime'' 15 = ''freezetime''"
  and strncpy_str_over: "strncpy_str ''over'' 15 = ''over''"
  by (simp_all add: strncpy_str_def)

lemma update_targets_early_exit:
  assumes "connected gsi"
    and "gsi_round_phase gsi = ''freezetime'' \<or> gsi_round_phase gsi = ''over''"
  shows "update_targets cfg gsi ctx =
     (let c = ctx\<lparr>weapon_cat := gsi_weapon_cat gsi,
                   weapon_name := strncpy_str (gsi_weapon_name gsi) 63,
                   round_phase := strncpy_str (gsi_round_phase gsi) 15,
                   weapon_speed := gsi_weapon_speed gsi,
                   gsi_active := connected gsi\<rparr>
      in if list_ex (\<lambda>i. replicate 4 (ap_normal cfg) ! i \<noteq> target_ap ctx ! i \<or>
                           replicate 4 (rt_normal cfg) ! i \<noteq> target_rt ctx ! i) [0..<4]
         then c\<lparr>target_ap := replicate 4 (ap_normal cfg),
                target_rt := replicate 4 (rt_normal cfg), needs_write := True\<rparr>
         else c)"
  using assms
  by (auto simp add: update_targets_def Let_def strncpy_str_freezetime strncpy_str_over)

text \<open>
  C6. When the game-state cache is connected and its round phase is \<open>freezetime\<close> or
  \<open>over\<close>, the targets after \<^verbatim>\<open>update_targets\<close> are \<open>ap_normal\<close> and \<open>rt_normal\<close> for each of
  the four keys, whatever the context holds (axis states, velocities, jiggle flags, crouch)
  and whatever the weapon category is.
\<close>

theorem freezetime_forces_normal:
  assumes "connected gsi"
    and "gsi_round_phase gsi = ''freezetime'' \<or> gsi_round_phase gsi = ''over''"
  shows "\<forall>i<4. target_ap (update_targets cfg gsi ctx) ! i = ap_normal cfg
               \<and> target_rt (update_targets cfg gsi ctx) ! i = rt_normal cfg"
proof (intro allI impI)
  fix i :: nat
  assume i: "i < 4"
  show "target_ap (update_targets cfg gsi ctx) ! i = ap_normal cfg
        \<and> target_rt (update_targets cfg gsi ctx) ! i = rt_normal cfg"
  proof (cases "list_ex (\<lambda>i. replicate 4 (ap_normal cfg) ! i \<noteq> target_ap ctx ! i \<or>
                           replicate 4 (rt_normal cfg) ! i \<noteq> target_rt ctx ! i) [0..<4]")
    case True
    then show ?thesis using i
      by (simp add: update_targets_early_exit [OF assms] Let_def)
  next
    case False
    then have "\<forall>j<4. replicate 4 (ap_normal cfg) ! j = target_ap ctx ! j \<and>
                     replicate 4 (rt_normal cfg) ! j = target_rt ctx ! j"
      by (simp add: list_ex_iff)
    with i have "target_ap ctx ! i = ap_normal cfg \<and> target_rt ctx ! i = rt_normal cfg"
      by (metis nth_replicate)
    with False show ?thesis
      by (simp add: update_targets_early_exit [OF assms] Let_def)
  qed
qed

text \<open>The witness: the horizontal axis is in a counter-strafe, the player crouches, the
  targets are aggressive, and the game reports freezetime with a rifle.\<close>

theorem freezetime_forces_normal_witness:
  "connected \<lparr>gsi_weapon_name = ''weapon_ak47'', gsi_weapon_cat = WCAT_RIFLE,
               gsi_weapon_speed = 215, gsi_round_phase = ''freezetime'', connected = True\<rparr>
   \<and> map (\<lambda>i. target_ap
         (update_targets g_cfg
            \<lparr>gsi_weapon_name = ''weapon_ak47'', gsi_weapon_cat = WCAT_RIFLE,
              gsi_weapon_speed = 215, gsi_round_phase = ''freezetime'', connected = True\<rparr>
            ((ctx_init g_cfg 0 0)\<lparr>axis_h := axis_zero\<lparr>state := S_COUNTER_NEG\<rparr>,
               crouching := True, target_ap := [1.2, 0.15, 1.2, 1.2],
               target_rt := [1, 0.1, 1, 0.1]\<rparr>)) ! i) [0, 1, 2, 3]
       = [1.2, 1.2, 1.2, 1.2]
   \<and> map (\<lambda>i. target_rt
         (update_targets g_cfg
            \<lparr>gsi_weapon_name = ''weapon_ak47'', gsi_weapon_cat = WCAT_RIFLE,
              gsi_weapon_speed = 215, gsi_round_phase = ''freezetime'', connected = True\<rparr>
            ((ctx_init g_cfg 0 0)\<lparr>axis_h := axis_zero\<lparr>state := S_COUNTER_NEG\<rparr>,
               crouching := True, target_ap := [1.2, 0.15, 1.2, 1.2],
               target_rt := [1, 0.1, 1, 0.1]\<rparr>)) ! i) [0, 1, 2, 3]
       = [1, 1, 1, 1]"
  using freezetime_forces_normal
          [of "\<lparr>gsi_weapon_name = ''weapon_ak47'', gsi_weapon_cat = WCAT_RIFLE,
                gsi_weapon_speed = 215, gsi_round_phase = ''freezetime'', connected = True\<rparr>"
              g_cfg
              "(ctx_init g_cfg 0 0)\<lparr>axis_h := axis_zero\<lparr>state := S_COUNTER_NEG\<rparr>,
                 crouching := True, target_ap := [1.2, 0.15, 1.2, 1.2],
                 target_rt := [1, 0.1, 1, 0.1]\<rparr>"]
  by (simp add: g_cfg_def)

section \<open>Properties of the rate-limited writer\<close>

lemma last_write_time_update_targets:
  "last_write_time (update_targets cfg gsi ctx) = last_write_time ctx"
  by (simp add: update_targets_def Let_def)

lemma last_write_time_tick_policy:
  "last_write_time (tick_policy cfg ctx inp) = last_write_time ctx"
  by (simp add: tick_policy_def Let_def last_write_time_update_targets)

lemma do_write_idle:
  "snd (do_write cfg now c hid freq) = [] \<Longrightarrow> do_write cfg now c hid freq = (c, [])"
  by (auto simp add: do_write_def Let_def split: if_splits)

lemma do_write_dispatch:
  assumes "snd (do_write cfg now c hid freq) \<noteq> []"
  shows "needs_write c \<and> hid \<noteq> None
     \<and> write_interval_ms cfg \<le> real_of_int (now - last_write_time c) * 1000 / freq
     \<and> snd (do_write cfg now c hid freq) =
         [Write_actuation hid PROFILE_IDX (Some (wasd_keys (target_ap c))) 4 False,
          Write_rt hid PROFILE_IDX (Some (wasd_keys (target_rt c))) 4 False]
     \<and> fst (do_write cfg now c hid freq) =
         c\<lparr>current_ap := target_ap c, current_rt := target_rt c, needs_write := False,
           last_write_time := now, write_count := write_count c + 1\<rparr>"
  using assms by (auto simp add: do_write_def Let_def split: if_splits)

lemma writer_run_spaced:
  "successively (\<lambda>t1 t2. write_interval_ms cfg \<le> real_of_int (t2 - t1) * 1000 / freq)
     (last_write_time ctx # dispatch_times (writer_run cfg hid freq ctx inps))"
proof (induction inps arbitrary: ctx)
  case Nil
  then show ?case by (simp add: dispatch_times_def)
next
  case (Cons inp inps)
  let ?c = "tick_policy cfg ctx inp"
  let ?r = "do_write cfg (t_now inp) ?c hid freq"
  show ?case
  proof (cases "snd ?r = []")
    case True
    then have "?r = (?c, [])" by (rule do_write_idle)
    then show ?thesis using Cons.IH [of ?c]
      by (simp add: adaptive_tick_def dispatch_times_def Let_def last_write_time_tick_policy)
  next
    case False
    from do_write_dispatch [OF False]
    have sp: "write_interval_ms cfg \<le> real_of_int (t_now inp - last_write_time ctx) * 1000 / freq"
      and l: "last_write_time (fst ?r) = t_now inp"
      by (simp_all add: last_write_time_tick_policy)
    from Cons.IH [of "fst ?r"] l sp False show ?thesis
      by (simp add: adaptive_tick_def dispatch_times_def Let_def)
  qed
qed

text \<open>
  C7, as amended. In every run of the main loop, two consecutive dispatches of
  \<^verbatim>\<open>do_write\<close> are at least \<open>write_interval_ms\<close> apart, and the first one is at least that
  long after the start of the loop. A dispatch occurs only when the writer is marked dirty
  (\<^verbatim>\<open>needs_write\<close>, set by \<^verbatim>\<open>update_targets\<close> when its output differs from the target it
  held) and at least \<open>write_interval_ms\<close> has elapsed since the previous dispatch; whether
  \<open>target\<close> differs from \<open>current\<close> is not tested. Each dispatch issues the actuation write
  for the four keys with \<open>target_ap\<close>, immediately followed by the rapid-trigger write for
  the same keys with \<open>target_rt\<close>, both for profile 0 and without saving, copies \<open>target\<close>
  into \<open>current\<close>, clears the mark and stamps the time.
\<close>

theorem writer_rate_limited:
  assumes "0 < freq"
  shows "successively (\<lambda>t1 t2. write_interval_ms cfg \<le> real_of_int (t2 - t1) * 1000 / freq)
           (last_write_time ctx # dispatch_times (writer_run cfg hid freq ctx inps))
         \<and> (snd (do_write cfg now c hid freq) \<noteq> [] \<longrightarrow>
              needs_write c \<and> hid \<noteq> None
              \<and> write_interval_ms cfg \<le> real_of_int (now - last_write_time c) * 1000 / freq
              \<and> snd (do_write cfg now c hid freq) =
                  [Write_actuation hid PROFILE_IDX (Some (wasd_keys (target_ap c))) 4 False,
                   Write_rt hid PROFILE_IDX (Some (wasd_keys (target_rt c))) 4 False]
              \<and> fst (do_write cfg now c hid freq) =
                  c\<lparr>current_ap := target_ap c, current_rt := target_rt c,
                    needs_write := False, last_write_time := now,
                    write_count := write_count c + 1\<rparr>)"
  using writer_run_spaced [of cfg freq ctx hid inps] do_write_dispatch [of cfg now c hid freq]
  by blast

text \<open>The tap on D: evaluation of the three iterations.\<close>

lemma tap_pressed_eq: "tap_pressed = axis_zero\<lparr>state := S_STRAFE_POS, pos_peak := 0.5\<rparr>"
  by (simp add: tap_pressed_def axis_eval)

lemma tap_released_eq: "tap_released = axis_zero\<lparr>prev := S_STRAFE_POS, pos_peak := 0.5\<rparr>"
  by (simp add: tap_released_def tap_pressed_eq axis_eval)

lemmas policy_eval =
  tick_policy_def tap_tick_def update_targets_def policy_targets_def axis_targets_def
  get_base_aggro_def vel_scale_ap_def VEL_AGGRO_ZONE_def ctx_init_def gsi_zero_def
  axis_zero_def g_cfg_def strncpy_str_def K_A_def K_D_def K_W_def K_S_def Let_def
  eval_nat_numeral

lemma tap_policy1:
  "tick_policy g_cfg (ctx_init g_cfg 0 0) (tap_tick tap_pressed 100000) =
     (ctx_init g_cfg 0 0)\<lparr>axis_h := tap_pressed, target_ap := [1.2, 0.4, 1.2, 1.2],
                         target_rt := [1, 1, 1, 0.1], needs_write := True\<rparr>"
  by (simp add: policy_eval tap_pressed_eq)

lemma tap_tick1:
  "adaptive_tick g_cfg tap_hid 10000000 (ctx_init g_cfg 0 0) (tap_tick tap_pressed 100000) =
     ((ctx_init g_cfg 0 0)\<lparr>axis_h := tap_pressed, target_ap := [1.2, 0.4, 1.2, 1.2],
                          target_rt := [1, 1, 1, 0.1], needs_write := True\<rparr>, [])"
  unfolding adaptive_tick_def tap_policy1
  by (simp add: do_write_def tap_tick_def tap_hid_def ctx_init_def g_cfg_def)

lemma tap_policy2:
  "tick_policy g_cfg
     ((ctx_init g_cfg 0 0)\<lparr>axis_h := tap_pressed, target_ap := [1.2, 0.4, 1.2, 1.2],
                         target_rt := [1, 1, 1, 0.1], needs_write := True\<rparr>)
     (tap_tick tap_released now) =
     (ctx_init g_cfg 0 0)\<lparr>axis_h := tap_released, needs_write := True\<rparr>"
  by (simp add: policy_eval tap_released_eq)

lemma tap_policy3:
  "tick_policy g_cfg ((ctx_init g_cfg 0 0)\<lparr>axis_h := tap_released, needs_write := True\<rparr>)
     (tap_tick tap_released now) =
     (ctx_init g_cfg 0 0)\<lparr>axis_h := tap_released, needs_write := True\<rparr>"
  by (simp add: policy_eval tap_released_eq)

lemma tap_ctx2_eq:
  "tap_ctx2 = (ctx_init g_cfg 0 0)\<lparr>axis_h := tap_released, needs_write := True\<rparr>"
  unfolding tap_ctx2_def tap_tick1 fst_conv
  unfolding adaptive_tick_def tap_policy2
  by (simp add: do_write_def tap_tick_def tap_hid_def ctx_init_def g_cfg_def)

lemma tap_write3:
  "do_write g_cfg 600000 ((ctx_init g_cfg 0 0)\<lparr>axis_h := tap_released, needs_write := True\<rparr>)
     tap_hid 10000000 =
     ((ctx_init g_cfg 0 0)\<lparr>axis_h := tap_released, last_write_time := 600000, write_count := 1\<rparr>,
      [Write_actuation tap_hid 0 (Some (wasd_keys [1.2, 1.2, 1.2, 1.2])) 4 False,
       Write_rt tap_hid 0 (Some (wasd_keys [1, 1, 1, 1])) 4 False])"
  by (simp add: do_write_def tap_hid_def ctx_init_def g_cfg_def PROFILE_IDX_def eval_nat_numeral)

lemma tap_run:
  "writer_run g_cfg tap_hid 10000000 (ctx_init g_cfg 0 0) tap_ticks =
     [(100000, []), (200000, []),
      (600000, [Write_actuation tap_hid 0 (Some (wasd_keys [1.2, 1.2, 1.2, 1.2])) 4 False,
                Write_rt tap_hid 0 (Some (wasd_keys [1, 1, 1, 1])) 4 False])]"
proof -
  have t2: "adaptive_tick g_cfg tap_hid 10000000
              ((ctx_init g_cfg 0 0)\<lparr>axis_h := tap_pressed, target_ap := [1.2, 0.4, 1.2, 1.2],
                         target_rt := [1, 1, 1, 0.1], needs_write := True\<rparr>)
              (tap_tick tap_released 200000) =
            ((ctx_init g_cfg 0 0)\<lparr>axis_h := tap_released, needs_write := True\<rparr>, [])"
    unfolding adaptive_tick_def tap_policy2
    by (simp add: do_write_def tap_tick_def tap_hid_def ctx_init_def g_cfg_def)
  have t3: "adaptive_tick g_cfg tap_hid 10000000
              ((ctx_init g_cfg 0 0)\<lparr>axis_h := tap_released, needs_write := True\<rparr>)
              (tap_tick tap_released 600000) =
     ((ctx_init g_cfg 0 0)\<lparr>axis_h := tap_released, last_write_time := 600000, write_count := 1\<rparr>,
      [Write_actuation tap_hid 0 (Some (wasd_keys [1.2, 1.2, 1.2, 1.2])) 4 False,
       Write_rt tap_hid 0 (Some (wasd_keys [1, 1, 1, 1])) 4 False])"
    unfolding adaptive_tick_def tap_policy3
    using tap_write3 by (simp add: tap_tick_def)
  show ?thesis
    unfolding tap_ticks_def writer_run.simps Let_def tap_tick1 fst_conv snd_conv t2 t3
    by (simp add: tap_tick_def)
qed


theorem writer_rate_limited_witness:
  "(0 :: real) < 10000000
   \<and> dispatch_times (writer_run g_cfg tap_hid 10000000 (ctx_init g_cfg 0 0) tap_ticks) = [600000]
   \<and> successively (\<lambda>t1 t2. write_interval_ms g_cfg \<le> real_of_int (t2 - t1) * 1000 / 10000000)
        (last_write_time (ctx_init g_cfg 0 0)
           # dispatch_times (writer_run g_cfg tap_hid 10000000 (ctx_init g_cfg 0 0) tap_ticks))
   \<and> snd (do_write g_cfg 600000 tap_ctx2 tap_hid 10000000) \<noteq> []
   \<and> needs_write tap_ctx2
   \<and> write_interval_ms g_cfg \<le> real_of_int (600000 - last_write_time tap_ctx2) * 1000 / 10000000
   \<and> snd (do_write g_cfg 600000 tap_ctx2 tap_hid 10000000) =
        [Write_actuation tap_hid PROFILE_IDX (Some (wasd_keys (target_ap tap_ctx2))) 4 False,
         Write_rt tap_hid PROFILE_IDX (Some (wasd_keys (target_rt tap_ctx2))) 4 False]
   \<and> current_ap (fst (do_write g_cfg 600000 tap_ctx2 tap_hid 10000000)) = target_ap tap_ctx2
   \<and> current_rt (fst (do_write g_cfg 600000 tap_ctx2 tap_hid 10000000)) = target_rt tap_ctx2"
proof -
  have d: "dispatch_times (writer_run g_cfg tap_hid 10000000 (ctx_init g_cfg 0 0) tap_ticks)
             = [600000]"
    by (simp add: tap_run dispatch_times_def)
  have n: "snd (do_write g_cfg 600000 tap_ctx2 tap_hid 10000000) \<noteq> []"
    by (simp add: tap_ctx2_eq tap_write3)
  from writer_rate_limited
         [of 10000000 g_cfg "ctx_init g_cfg 0 0" tap_hid tap_ticks 600000 tap_ctx2] n d
  show ?thesis by simp
qed

text \<open>
  C7, as stated, fails in its condition ``only when targets differ'': D is tapped 10 ms
  after the start of the loop and released at 20 ms. The first iteration changes the target
  and marks the writer, the second changes the target back to the normal depths, which
  \<open>current\<close> still holds, and leaves the mark set. At 60 ms the interval has elapsed and
  \<^verbatim>\<open>do_write\<close> dispatches both writes although \<open>target\<close> equals \<open>current\<close>.
\<close>

theorem dispatch_with_equal_targets:
  "writer_run g_cfg tap_hid 10000000 (ctx_init g_cfg 0 0) tap_ticks =
     [(100000, []), (200000, []),
      (600000, [Write_actuation tap_hid 0 (Some (wasd_keys [1.2, 1.2, 1.2, 1.2])) 4 False,
                Write_rt tap_hid 0 (Some (wasd_keys [1, 1, 1, 1])) 4 False])]
   \<and> target_ap (tick_policy g_cfg tap_ctx2 (tap_tick tap_released 600000))
       = current_ap (tick_policy g_cfg tap_ctx2 (tap_tick tap_released 600000))
   \<and> target_rt (tick_policy g_cfg tap_ctx2 (tap_tick tap_released 600000))
       = current_rt (tick_policy g_cfg tap_ctx2 (tap_tick tap_released 600000))
   \<and> snd (do_write g_cfg 600000 (tick_policy g_cfg tap_ctx2 (tap_tick tap_released 600000))
            tap_hid 10000000) \<noteq> []"
  unfolding tap_ctx2_eq tap_policy3 tap_write3
  using tap_run by (simp add: ctx_init_def)

end
